theory Spec2Isabelle
  imports Main "HOL-Library.AList"
begin

section \<open>JavaScript values used by the wallet scripts\<close>

text \<open>
  The wallet consists of three scripts that exchange messages: the page provider
  (\<^verbatim>\<open>public/injectScript.js\<close>, first part), the content script (second part of the same
  file) and the background script (\<^verbatim>\<open>public/background.js\<close>). Each message handler is
  embedded as a function from the script's state and the message to the new state and
  the list of effects (messages sent, popups opened, console errors) in program order.
  \<^verbatim>\<open>console.log\<close>/\<^verbatim>\<open>console.warn\<close> lines and the persistence writes
  \<^verbatim>\<open>saveState()\<close>, \<^verbatim>\<open>saveConnectedSites()\<close>, \<^verbatim>\<open>saveCustomChains()\<close> are left out: they
  copy the in-memory state and feed nothing back to the handlers.
\<close>

text \<open>\<^verbatim>\<open>String.prototype.includes\<close>: case-sensitive substring containment.\<close>

fun startsWith :: "string \<Rightarrow> string \<Rightarrow> bool" where
  "startsWith s [] = True"
| "startsWith [] (c # cs) = False"
| "startsWith (x # xs) (c # cs) = (x = c \<and> startsWith xs cs)"

fun js_includes :: "string \<Rightarrow> string \<Rightarrow> bool" where
  "js_includes [] t = (t = [])"
| "js_includes (x # xs) t = (startsWith (x # xs) t \<or> js_includes xs t)"

text \<open>A string is falsy exactly when it is missing or empty.\<close>

fun truthy :: "string option \<Rightarrow> bool" where
  "truthy None = False"
| "truthy (Some s) = (s \<noteq> [])"

text \<open>
  An error object \<^verbatim>\<open>{code, message}\<close>, and the values a promise can be rejected with:
  an \<^verbatim>\<open>Error\<close> instance (it has a message and no code) or a plain \<^verbatim>\<open>{code, message}\<close>
  object.
\<close>

datatype rpc_error = RpcError (err_code: int) (err_message: string)

datatype thrown = JsError string | ErrObject rpc_error

text \<open>
  Request identifiers are numbers (the content script's counter) or strings; \<^verbatim>\<open>===\<close>
  never identifies a number with a string. A missing identifier is \<open>None\<close>.
\<close>

datatype request_id = NumId nat | StrId string

text \<open>The payload of a provider event.\<close>

datatype evdata =
    EvAccounts "string list"
  | EvChainId "string option"
  | EvConnect "string option"
  | EvDisconnect int string
  | EvString string
  | EvError rpc_error

section \<open>Page provider: the event emitter\<close>

text \<open>
  A listener is page code: it transforms the page's world \<open>'w\<close> and either returns or
  throws. \<open>Abrupt e w\<close> is a throw of \<open>e\<close> that leaves the world \<open>w\<close> behind.
  \<^verbatim>\<open>Array.prototype.forEach\<close> stops at a callback that throws and rethrows;
  \<^verbatim>\<open>try { ... } catch (error) { ... }\<close> hands the exception to its handler.
  The own properties of the listener table \<^verbatim>\<open>_events\<close> map event names to arrays of
  listeners, in registration order. \<^verbatim>\<open>forEach\<close> walks the array as it was when the loop
  began, so the table is a fixed argument of one \<^verbatim>\<open>emit\<close>.
\<close>

datatype 'w completion = Normal 'w | Abrupt thrown 'w

type_synonym ('a, 'w) listener = "'a \<Rightarrow> 'w \<Rightarrow> 'w completion"

type_synonym ('a, 'w) events = "(string \<times> ('a, 'w) listener list) list"



text \<open>
  The listener table \<^verbatim>\<open>_events\<close> is the object literal \<^verbatim>\<open>{}\<close>. Reading
  \<^verbatim>\<open>this._events[eventName]\<close> finds an own property, which is an array of listeners
  made by \<^verbatim>\<open>on\<close>, or else a member that the object inherits from \<^verbatim>\<open>Object.prototype\<close>,
  or else \<^verbatim>\<open>undefined\<close>. The inherited members are truthy and are not arrays.
\<close>

definition object_prototype_members :: "string list" where
  "object_prototype_members =
     [''constructor'', ''__defineGetter__'', ''__defineSetter__'', ''hasOwnProperty'',
      ''__lookupGetter__'', ''__lookupSetter__'', ''isPrototypeOf'', ''propertyIsEnumerable'',
      ''toString'', ''valueOf'', ''__proto__'', ''toLocaleString'']"

datatype 'l property = Own 'l | Inherited | Absent

definition get_property :: "('a, 'w) events \<Rightarrow> string \<Rightarrow> ('a, 'w) listener list property" where
  "get_property events eventName =
     (case map_of events eventName of
        Some ls \<Rightarrow> Own ls
      | None \<Rightarrow> if eventName \<in> set object_prototype_members then Inherited else Absent)"

text \<open>
  \<^verbatim>\<open>on(eventName, listener)\<close>: create the array when the property is falsy, then push.
  On an inherited member \<^verbatim>\<open>push\<close> is not a function and the call throws a
  \<^verbatim>\<open>TypeError\<close>.
\<close>

definition on :: "string \<Rightarrow> ('a, 'w) listener \<Rightarrow> ('a, 'w) events \<Rightarrow> thrown + ('a, 'w) events" where
  "on eventName listener events =
     (case get_property events eventName of
        Absent \<Rightarrow> Inr (events @ [(eventName, [listener])])
      | Own ls \<Rightarrow> Inr (AList.update eventName (ls @ [listener]) events)
      | Inherited \<Rightarrow> Inl (JsError ''this._events[eventName].push is not a function''))"



section \<open>Background script: state, storage and messages\<close>

text \<open>
  \<^verbatim>\<open>state.connectedSites[origin]\<close>: the record of one site. A site record is created by
  an approved connection and carries the granted accounts.
\<close>

record connected_site =
  site_origin :: "string option"
  site_accounts :: "string list"
  site_chainId :: "string option"
  site_connected :: bool
  site_lastConnected :: nat
  site_permissions :: "string list"
  site_timestamp :: nat

text \<open>
  The parameter of \<^verbatim>\<open>wallet_addEthereumChain\<close> with the three fields the scripts read, and
  a stored custom chain \<^verbatim>\<open>{...chainData, addedBy, timestamp}\<close>.
\<close>

record chain_data =
  cd_chainId :: "string option"
  cd_chainName :: "string option"
  cd_rpcUrls :: "string list option"

record custom_chain = chain_data +
  cc_addedBy :: "string option"
  cc_timestamp :: nat

text \<open>
  The wallet state \<^verbatim>\<open>state\<close> of the background script. The two dictionaries are
  association lists in insertion order, the order \<^verbatim>\<open>Object.keys\<close> returns. The fields
  \<^verbatim>\<open>pendingRequests\<close>, \<^verbatim>\<open>sessions\<close>, \<^verbatim>\<open>lastAccessed\<close> and \<^verbatim>\<open>customTokens\<close> are never
  read or written by a handler and are left out.
\<close>

record bg_state =
  isUnlocked :: bool
  accounts :: "string list"
  selectedChainId :: "string option"
  connectedSites :: "(string \<times> connected_site) list"
  customChains :: "(string \<times> custom_chain) list"

text \<open>A transaction parameter: missing, not an object, or an object with its fields.\<close>

record transaction =
  tx_to :: "string option"
  tx_data :: "string option"
  tx_value :: "string option"

datatype tx_param = TxUndefined | TxNotObject | TxObject transaction

text \<open>
  A pending request as kept in \<^verbatim>\<open>chrome.storage.local\<close>; a field the request kind does
  not have is \<open>None\<close>.
\<close>

record pending_request =
  pr_id :: "request_id option"
  pr_type :: string
  pr_origin :: "string option"
  pr_chainId :: "string option"
  pr_chainData :: "chain_data option"
  pr_transaction :: "transaction option"
  pr_msgData :: "string option"
  pr_address :: "string option"
  pr_timestamp :: nat

text \<open>
  The stored \<^verbatim>\<open>account\<close> entry is a JSON string: it may fail to parse, or parse to an
  object with or without an address.
\<close>

datatype stored_account = Unparsable | ParsedAccount "string option"

text \<open>The keys of \<^verbatim>\<open>chrome.storage.local\<close> that the handlers use; one slot per request kind.\<close>

record storage =
  pendingConnectRequest :: "pending_request option"
  pendingChainRequest :: "pending_request option"
  pendingAddChainRequest :: "pending_request option"
  pendingTransactionRequest :: "pending_request option"
  pendingSignRequest :: "pending_request option"
  account :: "stored_account option"

text \<open>A browser tab as \<^verbatim>\<open>tabs.query({})\<close> returns it.\<close>

record tab =
  tab_id :: nat
  tab_url :: "string option"

text \<open>The content script's copy of the wallet state, \<^verbatim>\<open>window.crossNetWalletState\<close>.\<close>

record wallet_state =
  ws_connected :: bool
  ws_accounts :: "string list"
  ws_chainId :: "string option"
  ws_selectedAddress :: "string option"

text \<open>
  A message sent to a tab with \<^verbatim>\<open>tabs.sendMessage\<close>; \<open>tmsg\<close> is the message of a given
  type with every other property missing.
\<close>

record tab_message =
  tm_type :: string
  tm_requestId :: "request_id option"
  tm_approved :: bool
  tm_accounts :: "string list option"
  tm_chainId :: "string option"
  tm_result :: "string option"
  tm_error :: "rpc_error option"
  tm_eventName :: "string option"
  tm_eventData :: "evdata option"
  tm_data :: "wallet_state option"

definition tmsg :: "string \<Rightarrow> tab_message" where
  "tmsg t = \<lparr>tm_type = t, tm_requestId = None, tm_approved = False, tm_accounts = None,
             tm_chainId = None, tm_result = None, tm_error = None, tm_eventName = None,
             tm_eventData = None, tm_data = None\<rparr>"

definition wallet_event :: "string \<Rightarrow> evdata \<Rightarrow> tab_message" where
  "wallet_event eventName eventData =
     (tmsg ''WALLET_EVENT'')\<lparr>tm_eventName := Some eventName, tm_eventData := Some eventData\<rparr>"

definition user_rejected :: rpc_error where
  "user_rejected = RpcError 4001 ''User rejected the request.''"

text \<open>The argument of \<^verbatim>\<open>sendResponse\<close>.\<close>

datatype response =
    RespErrorStr string
  | RespError rpc_error
  | RespWaiting
  | RespSuccess
  | RespConnected "string list" string
  | RespChainId "string option"
  | RespFailure string

text \<open>What a handler does to the outside, in program order.\<close>

datatype effect =
    SendResponse response
  | TabsSendMessage nat tab_message
  | OpenPopup string "request_id option"
  | ConsoleError string

text \<open>
  A message received by \<^verbatim>\<open>runtime.onMessage\<close>: its type, the properties the listeners
  read from the message itself, and \<^verbatim>\<open>message.data\<close>.
\<close>

record msg_data =
  d_origin :: "string option"
  d_requestId :: "request_id option"
  d_chainId :: "string option"
  d_chainData :: "chain_data option"
  d_transaction :: tx_param
  d_msgData :: "string option"
  d_typedData :: "string option"
  d_address :: "string option"

record message =
  m_type :: string
  m_requestId :: "request_id option"
  m_approved :: bool
  m_accounts :: "string list option"
  m_origin :: "string option"
  m_chainId :: "string option"
  m_switchToChain :: bool
  m_txHash :: "string option"
  m_signature :: "string option"
  m_data :: "msg_data option"

text \<open>
  What the handlers take from their environment: \<^verbatim>\<open>Date.now()\<close>, the open tabs, which
  tabs answer a \<^verbatim>\<open>CONNECT_RESPONSE\<close> with a truthy reply, and whether
  \<^verbatim>\<open>storage.local.set\<close> succeeds (no \<^verbatim>\<open>runtime.lastError\<close>).
\<close>

record env =
  now :: nat
  tabs :: "tab list"
  acked :: "nat \<Rightarrow> bool"
  storage_set_ok :: bool

datatype js_exception = ReferenceError string | TypeError string

text \<open>The value a listener returns (\<^verbatim>\<open>true\<close> keeps the reply channel open), or its exception.\<close>

datatype listener_return = Returned bool | Threw js_exception

section \<open>Background script: request handlers\<close>

text \<open>
  A property key or a search string made from a missing value is the string
  \<^verbatim>\<open>undefined\<close>. A site counts as connected when
  \<^verbatim>\<open>state.connectedSites[origin] && state.connectedSites[origin].connected\<close> holds. A tab
  is notified when \<^verbatim>\<open>tab.url && tab.url.includes(origin)\<close> holds.
\<close>

definition str_of :: "string option \<Rightarrow> string" where
  "str_of x = (case x of None \<Rightarrow> ''undefined'' | Some s \<Rightarrow> s)"

definition site_is_connected :: "bg_state \<Rightarrow> string option \<Rightarrow> bool" where
  "site_is_connected st origin =
     (case map_of (connectedSites st) (str_of origin) of
        None \<Rightarrow> False
      | Some site \<Rightarrow> site_connected site)"

definition tab_matches :: "string option \<Rightarrow> tab \<Rightarrow> bool" where
  "tab_matches origin t =
     (case tab_url t of
        None \<Rightarrow> False
      | Some u \<Rightarrow> u \<noteq> [] \<and> js_includes u (str_of origin))"

text \<open>\<^verbatim>\<open>state.selectedChainId || '137'\<close>.\<close>

definition chain_or_default :: "string option \<Rightarrow> string" where
  "chain_or_default c = (case c of None \<Rightarrow> ''137'' | Some s \<Rightarrow> if s = [] then ''137'' else s)"

definition notifyConnectedSite :: "tab list \<Rightarrow> string \<Rightarrow> string \<Rightarrow> evdata \<Rightarrow> effect list" where
  "notifyConnectedSite ts origin eventName eventData =
     map (\<lambda>t. TabsSendMessage (tab_id t) (wallet_event eventName eventData))
       (filter (tab_matches (Some origin)) ts)"

text \<open>\<open>Some e\<close> in the first component: the handler threw \<open>e\<close>.\<close>

type_synonym bg_step = "js_exception option \<times> bg_state \<times> storage \<times> effect list"

definition new_pending :: "request_id option \<Rightarrow> string \<Rightarrow> string option \<Rightarrow> nat \<Rightarrow> pending_request" where
  "new_pending rid ty origin t =
     \<lparr>pr_id = rid, pr_type = ty, pr_origin = origin, pr_chainId = None, pr_chainData = None,
      pr_transaction = None, pr_msgData = None, pr_address = None, pr_timestamp = t\<rparr>"

definition proceedWithConnectionRequest ::
  "env \<Rightarrow> string option \<Rightarrow> request_id option \<Rightarrow> bg_state \<Rightarrow> storage \<Rightarrow> bg_step" where
  "proceedWithConnectionRequest e origin requestId st store =
     (if storage_set_ok e
      then (None, st,
            store\<lparr>pendingConnectRequest := Some (new_pending requestId ''connect'' origin (now e))\<rparr>,
            [OpenPopup ''connect'' requestId, SendResponse RespWaiting])
      else (None, st, store,
            [ConsoleError ''Error storing connection request'',
             SendResponse (RespErrorStr ''Internal wallet error'')]))"

text \<open>\<^verbatim>\<open>handleConnectRequest\<close> reads \<^verbatim>\<open>origin\<close> and \<^verbatim>\<open>requestId\<close> from the message itself.\<close>

definition handleConnectRequest :: "env \<Rightarrow> message \<Rightarrow> bg_state \<Rightarrow> storage \<Rightarrow> bg_step" where
  "handleConnectRequest e msg st store =
     (if \<not> truthy (m_origin msg)
      then (None, st, store, [SendResponse (RespErrorStr ''Origin is required'')])
      else
        (case account store of
           None \<Rightarrow> (None, st, store, [SendResponse (RespErrorStr ''No accounts available'')])
         | Some Unparsable \<Rightarrow>
             (None, st, store,
              [ConsoleError ''Error parsing account data'',
               SendResponse (RespErrorStr ''No accounts available'')])
         | Some (ParsedAccount addr) \<Rightarrow>
             (if \<not> truthy addr
              then (None, st, store, [SendResponse (RespErrorStr ''No accounts available'')])
              else if site_is_connected st (m_origin msg)
              then (None,
                    (if str_of addr \<in> set (accounts st) then st
                     else st\<lparr>accounts := [str_of addr]\<rparr>),
                    store,
                    [SendResponse
                       (RespConnected [str_of addr] (chain_or_default (selectedChainId st)))])
              else proceedWithConnectionRequest e (m_origin msg) (m_requestId msg) st store)))"

definition handleSwitchChainRequest :: "env \<Rightarrow> message \<Rightarrow> bg_state \<Rightarrow> storage \<Rightarrow> bg_step" where
  "handleSwitchChainRequest e msg st store =
     (case m_data msg of
        None \<Rightarrow> (Some (TypeError ''data is undefined''), st, store, [])
      | Some d \<Rightarrow>
          (if \<not> site_is_connected st (d_origin d)
           then (None, st, store, [SendResponse (RespErrorStr ''Site not connected'')])
           else if selectedChainId st = d_chainId d
           then (None, st, store, [SendResponse (RespChainId (d_chainId d))])
           else if storage_set_ok e
           then (None, st,
                 store\<lparr>pendingChainRequest :=
                   Some ((new_pending (d_requestId d) ''switchChain'' (d_origin d) (now e))
                           \<lparr>pr_chainId := d_chainId d\<rparr>)\<rparr>,
                 [OpenPopup ''switchChain'' (d_requestId d), SendResponse RespWaiting])
           else (None, st, store,
                 [ConsoleError ''Error storing chain switch request'',
                  SendResponse (RespErrorStr ''Internal wallet error'')])))"

definition valid_chain_data :: "chain_data option \<Rightarrow> bool" where
  "valid_chain_data cd =
     (case cd of
        None \<Rightarrow> False
      | Some c \<Rightarrow>
          truthy (cd_chainId c) \<and> truthy (cd_chainName c) \<and>
          (case cd_rpcUrls c of None \<Rightarrow> False | Some urls \<Rightarrow> urls \<noteq> []))"

definition handleAddChainRequest :: "env \<Rightarrow> message \<Rightarrow> bg_state \<Rightarrow> storage \<Rightarrow> bg_step" where
  "handleAddChainRequest e msg st store =
     (case m_data msg of
        None \<Rightarrow> (Some (TypeError ''data is undefined''), st, store, [])
      | Some d \<Rightarrow>
          (if \<not> site_is_connected st (d_origin d)
           then (None, st, store, [SendResponse (RespError (RpcError 4100 ''Site not connected''))])
           else if \<not> valid_chain_data (d_chainData d)
           then (None, st, store,
                 [SendResponse (RespError (RpcError 4200 ''Invalid chain parameters''))])
           else if storage_set_ok e
           then (None, st,
                 store\<lparr>pendingAddChainRequest :=
                   Some ((new_pending (d_requestId d) ''addChain'' (d_origin d) (now e))
                           \<lparr>pr_chainData := d_chainData d\<rparr>)\<rparr>,
                 [OpenPopup ''addChain'' (d_requestId d), SendResponse RespWaiting])
           else (None, st, store,
                 [ConsoleError ''Error storing add chain request'',
                  SendResponse (RespError (RpcError 5000 ''Internal wallet error''))])))"

definition missing_to_or_data :: string where
  "missing_to_or_data =
     ''Invalid transaction parameters: missing '' @ [CHR 0x22] @ ''to'' @ [CHR 0x22] @
     '' or '' @ [CHR 0x22] @ ''data'' @ [CHR 0x22]"

definition handleSendTransactionRequest :: "env \<Rightarrow> message \<Rightarrow> bg_state \<Rightarrow> storage \<Rightarrow> bg_step" where
  "handleSendTransactionRequest e msg st store =
     (case m_data msg of
        None \<Rightarrow> (Some (TypeError ''data is undefined''), st, store, [])
      | Some d \<Rightarrow>
          (if \<not> site_is_connected st (d_origin d)
           then (None, st, store, [SendResponse (RespError (RpcError 4100 ''Site not connected''))])
           else
             (case d_transaction d of
                TxUndefined \<Rightarrow>
                  (None, st, store,
                   [SendResponse (RespError (RpcError 4200 ''Invalid transaction parameters''))])
              | TxNotObject \<Rightarrow>
                  (None, st, store,
                   [SendResponse (RespError (RpcError 4200 ''Invalid transaction parameters''))])
              | TxObject tx \<Rightarrow>
                  (if \<not> truthy (tx_to tx) \<and> \<not> truthy (tx_data tx)
                   then (None, st, store,
                         [ConsoleError ''Transaction must have a to address or contract data'',
                          SendResponse (RespError (RpcError 4200 missing_to_or_data))])
                   else if storage_set_ok e
                   then (None, st,
                         store\<lparr>pendingTransactionRequest :=
                           Some ((new_pending (d_requestId d) ''transaction'' (d_origin d) (now e))
                                   \<lparr>pr_transaction := Some tx,
                                    pr_chainId := selectedChainId st\<rparr>)\<rparr>,
                         [OpenPopup ''transaction'' (d_requestId d), SendResponse RespWaiting])
                   else (None, st, store,
                         [ConsoleError ''Error storing transaction request'',
                          SendResponse (RespError (RpcError 5000 ''Internal wallet error''))])))))"

text \<open>
  \<^verbatim>\<open>handlePersonalSignRequest\<close>: the site must be connected and the address must be one
  of the accounts granted to it.
\<close>

definition address_granted :: "connected_site \<Rightarrow> string option \<Rightarrow> bool" where
  "address_granted site address =
     (case address of None \<Rightarrow> False | Some a \<Rightarrow> a \<in> set (site_accounts site))"

definition handlePersonalSignRequest :: "env \<Rightarrow> message \<Rightarrow> bg_state \<Rightarrow> storage \<Rightarrow> bg_step" where
  "handlePersonalSignRequest e msg st store =
     (case m_data msg of
        None \<Rightarrow> (Some (TypeError ''data is undefined''), st, store, [])
      | Some d \<Rightarrow>
          (case map_of (connectedSites st) (str_of (d_origin d)) of
             None \<Rightarrow>
               (None, st, store, [SendResponse (RespError (RpcError 4100 ''Site not connected''))])
           | Some site \<Rightarrow>
               (if \<not> site_connected site
                then (None, st, store,
                      [SendResponse (RespError (RpcError 4100 ''Site not connected''))])
                else if \<not> address_granted site (d_address d)
                then (None, st, store,
                      [SendResponse (RespError (RpcError 4100 ''Unauthorized account''))])
                else if storage_set_ok e
                then (None, st,
                      store\<lparr>pendingSignRequest :=
                        Some ((new_pending (d_requestId d) ''personalSign'' (d_origin d) (now e))
                                \<lparr>pr_msgData := d_msgData d, pr_address := d_address d\<rparr>)\<rparr>,
                      [OpenPopup ''personalSign'' (d_requestId d), SendResponse RespWaiting])
                else (None, st, store,
                      [ConsoleError ''Error storing sign request'',
                       SendResponse (RespError (RpcError 5000 ''Internal wallet error''))]))))"

section \<open>Background script: decisions of the user\<close>

text \<open>
  Each decision handler reads its slot of the storage, returns at once when the slot is
  empty or holds another request id, and otherwise notifies every matching tab and
  clears the slot. The storage read and the body of its callback are one step here:
  a second decision message is handled after the first callback has run.
\<close>

text \<open>The messages of one \<^verbatim>\<open>tabs.forEach\<close> loop: \<open>msgs\<close> for every matching tab, in tab order.\<close>

definition to_matching_tabs :: "env \<Rightarrow> string option \<Rightarrow> tab_message list \<Rightarrow> effect list" where
  "to_matching_tabs e origin msgs =
     concat (map (\<lambda>t. map (TabsSendMessage (tab_id t)) msgs)
                 (filter (tab_matches origin) (tabs e)))"

definition rejection :: "string \<Rightarrow> request_id option \<Rightarrow> tab_message" where
  "rejection ty requestId =
     (tmsg ty)\<lparr>tm_requestId := requestId, tm_approved := False, tm_error := Some user_rejected\<rparr>"

text \<open>
  \<^verbatim>\<open>handleConnectResponse({requestId, approved, accounts})\<close>. The accounts of the decision
  are used when there are any, else \<^verbatim>\<open>state.accounts\<close>, else the stored account.
\<close>

definition accountsToUse :: "string list option \<Rightarrow> bg_state \<Rightarrow> storage \<Rightarrow> string list" where
  "accountsToUse accs st store =
     (let fromMessage = (case accs of None \<Rightarrow> accounts st
                         | Some l \<Rightarrow> if l \<noteq> [] then l else accounts st)
      in if fromMessage \<noteq> [] then fromMessage
         else (case account store of
                 Some (ParsedAccount (Some a)) \<Rightarrow> if a \<noteq> [] then [a] else fromMessage
               | _ \<Rightarrow> fromMessage))"

definition handleConnectResponse ::
  "env \<Rightarrow> request_id option \<Rightarrow> bool \<Rightarrow> string list option \<Rightarrow> bg_state \<Rightarrow> storage \<Rightarrow> bg_step" where
  "handleConnectResponse e requestId approved accs st store =
     (case pendingConnectRequest store of
        None \<Rightarrow> (None, st, store, [ConsoleError ''No pending connect request found''])
      | Some pr \<Rightarrow>
          (if pr_id pr \<noteq> requestId
           then (None, st, store, [ConsoleError ''Request ID mismatch''])
           else if approved
           then
             (let use = accountsToUse accs st store;
                  st1 = (if use \<noteq> [] then st\<lparr>accounts := use\<rparr> else st);
                  chainId = chain_or_default (selectedChainId st1);
                  site = \<lparr>site_origin = pr_origin pr, site_accounts = use,
                          site_chainId = Some chainId, site_connected = True,
                          site_lastConnected = now e, site_permissions = [''eth_accounts''],
                          site_timestamp = now e\<rparr>;
                  st2 = st1\<lparr>connectedSites :=
                          AList.update (str_of (pr_origin pr)) site (connectedSites st1)\<rparr>;
                  matching = filter (tab_matches (pr_origin pr)) (tabs e)
              in (None, st2, store\<lparr>pendingConnectRequest := None\<rparr>,
                  map (\<lambda>t. TabsSendMessage (tab_id t)
                             ((tmsg ''CONNECT_RESPONSE'')
                                \<lparr>tm_requestId := requestId, tm_approved := True,
                                 tm_accounts := Some use, tm_chainId := Some chainId\<rparr>))
                      matching
                  @ concat (map (\<lambda>t. [TabsSendMessage (tab_id t)
                                        (wallet_event ''connect'' (EvConnect (Some chainId))),
                                      TabsSendMessage (tab_id t)
                                        (wallet_event ''accountsChanged'' (EvAccounts use))])
                                (filter (\<lambda>t. acked e (tab_id t)) matching))))
           else (None, st, store\<lparr>pendingConnectRequest := None\<rparr>,
                 to_matching_tabs e (pr_origin pr) [rejection ''CONNECT_RESPONSE'' requestId])))"

text \<open>\<^verbatim>\<open>if (state.connectedSites[origin]) state.connectedSites[origin].chainId = chainId\<close>.\<close>

definition set_site_chain ::
  "string option \<Rightarrow> string option \<Rightarrow> (string \<times> connected_site) list \<Rightarrow> (string \<times> connected_site) list"
  where
  "set_site_chain origin chainId sites =
     (case map_of sites (str_of origin) of
        None \<Rightarrow> sites
      | Some site \<Rightarrow> AList.update (str_of origin) (site\<lparr>site_chainId := chainId\<rparr>) sites)"

definition handleSwitchChainResponse ::
  "env \<Rightarrow> request_id option \<Rightarrow> bool \<Rightarrow> bg_state \<Rightarrow> storage \<Rightarrow> bg_step" where
  "handleSwitchChainResponse e requestId approved st store =
     (case pendingChainRequest store of
        None \<Rightarrow> (None, st, store, [ConsoleError ''No pending chain switch request found''])
      | Some pr \<Rightarrow>
          (if pr_id pr \<noteq> requestId
           then (None, st, store, [ConsoleError ''Request ID mismatch''])
           else if approved
           then (None,
                 st\<lparr>selectedChainId := pr_chainId pr,
                    connectedSites := set_site_chain (pr_origin pr) (pr_chainId pr) (connectedSites st)\<rparr>,
                 store\<lparr>pendingChainRequest := None\<rparr>,
                 to_matching_tabs e (pr_origin pr)
                   [(tmsg ''SWITCH_CHAIN_RESPONSE'')
                      \<lparr>tm_requestId := requestId, tm_approved := True, tm_chainId := pr_chainId pr\<rparr>,
                    wallet_event ''chainChanged'' (EvChainId (pr_chainId pr))])
           else (None, st, store\<lparr>pendingChainRequest := None\<rparr>,
                 to_matching_tabs e (pr_origin pr) [rejection ''SWITCH_CHAIN_RESPONSE'' requestId])))"

definition handleAddChainResponse ::
  "env \<Rightarrow> request_id option \<Rightarrow> bool \<Rightarrow> bool \<Rightarrow> bg_state \<Rightarrow> storage \<Rightarrow> bg_step" where
  "handleAddChainResponse e requestId approved switchToChain st store =
     (case pendingAddChainRequest store of
        None \<Rightarrow> (None, st, store, [ConsoleError ''No pending add chain request found''])
      | Some pr \<Rightarrow>
          (if pr_id pr \<noteq> requestId
           then (None, st, store, [ConsoleError ''Request ID mismatch''])
           else
             (case pr_chainData pr of
                None \<Rightarrow> (Some (TypeError ''chainData is undefined''), st, store, [])
              | Some cd \<Rightarrow>
                  (if approved
                   then
                     (let st1 = st\<lparr>customChains :=
                                  AList.update (str_of (cd_chainId cd))
                                    \<lparr>cd_chainId = cd_chainId cd, cd_chainName = cd_chainName cd,
                                     cd_rpcUrls = cd_rpcUrls cd, cc_addedBy = pr_origin pr,
                                     cc_timestamp = now e\<rparr>
                                    (customChains st)\<rparr>;
                          st2 = (if switchToChain
                                 then st1\<lparr>selectedChainId := cd_chainId cd,
                                          connectedSites :=
                                            set_site_chain (pr_origin pr) (cd_chainId cd)
                                              (connectedSites st1)\<rparr>
                                 else st1)
                      in (None, st2, store\<lparr>pendingAddChainRequest := None\<rparr>,
                          (if switchToChain
                           then to_matching_tabs e (pr_origin pr)
                                  [wallet_event ''chainChanged'' (EvChainId (cd_chainId cd))]
                           else [])
                          @ to_matching_tabs e (pr_origin pr)
                              [(tmsg ''ADD_CHAIN_RESPONSE'')
                                 \<lparr>tm_requestId := requestId, tm_approved := True\<rparr>]))
                   else (None, st, store\<lparr>pendingAddChainRequest := None\<rparr>,
                         to_matching_tabs e (pr_origin pr)
                           [rejection ''ADD_CHAIN_RESPONSE'' requestId])))))"

definition handleTransactionResponse ::
  "env \<Rightarrow> request_id option \<Rightarrow> bool \<Rightarrow> string option \<Rightarrow> bg_state \<Rightarrow> storage \<Rightarrow> bg_step" where
  "handleTransactionResponse e requestId approved txHash st store =
     (case pendingTransactionRequest store of
        None \<Rightarrow> (None, st, store, [ConsoleError ''No pending transaction request found''])
      | Some pr \<Rightarrow>
          (if pr_id pr \<noteq> requestId
           then (None, st, store, [ConsoleError ''Request ID mismatch''])
           else if approved
           then (None, st, store\<lparr>pendingTransactionRequest := None\<rparr>,
                 to_matching_tabs e (pr_origin pr)
                   [(tmsg ''SEND_TRANSACTION_RESPONSE'')
                      \<lparr>tm_requestId := requestId, tm_approved := True, tm_result := txHash\<rparr>])
           else (None, st, store\<lparr>pendingTransactionRequest := None\<rparr>,
                 to_matching_tabs e (pr_origin pr)
                   [rejection ''SEND_TRANSACTION_RESPONSE'' requestId])))"

definition sign_response_type :: "string \<Rightarrow> string" where
  "sign_response_type ty =
     (if ty = ''personalSign'' then ''PERSONAL_SIGN_RESPONSE''
      else if ty = ''ethSign'' then ''ETH_SIGN_RESPONSE''
      else ''TYPED_SIGN_RESPONSE'')"

definition handleSignResponse ::
  "env \<Rightarrow> request_id option \<Rightarrow> bool \<Rightarrow> string option \<Rightarrow> bg_state \<Rightarrow> storage \<Rightarrow> bg_step" where
  "handleSignResponse e requestId approved signature st store =
     (case pendingSignRequest store of
        None \<Rightarrow> (None, st, store, [ConsoleError ''No pending sign request found''])
      | Some pr \<Rightarrow>
          (if pr_id pr \<noteq> requestId
           then (None, st, store, [ConsoleError ''Request ID mismatch''])
           else if approved
           then (None, st, store\<lparr>pendingSignRequest := None\<rparr>,
                 to_matching_tabs e (pr_origin pr)
                   [(tmsg (sign_response_type (pr_type pr)))
                      \<lparr>tm_requestId := requestId, tm_approved := True, tm_result := signature\<rparr>])
           else (None, st, store\<lparr>pendingSignRequest := None\<rparr>,
                 to_matching_tabs e (pr_origin pr)
                   [rejection (sign_response_type (pr_type pr)) requestId])))"

section \<open>Background script: the message listeners\<close>

text \<open>
  The global scope of \<^verbatim>\<open>background.js\<close>. Its function declarations are \<^verbatim>\<open>saveState\<close>,
  \<^verbatim>\<open>saveConnectedSites\<close>, \<^verbatim>\<open>saveCustomTokens\<close>, \<^verbatim>\<open>saveCustomChains\<close>,
  \<^verbatim>\<open>openPopupForApproval\<close>, \<^verbatim>\<open>notifyConnectedSite\<close>, \<^verbatim>\<open>handleConnectRequest\<close>,
  \<^verbatim>\<open>proceedWithConnectionRequest\<close>, \<^verbatim>\<open>handleConnectResponse\<close>,
  \<^verbatim>\<open>handleSwitchChainRequest\<close>, \<^verbatim>\<open>handleSwitchChainResponse\<close>, \<^verbatim>\<open>handleAddChainRequest\<close>,
  \<^verbatim>\<open>handleAddChainResponse\<close>, \<^verbatim>\<open>handleSendTransactionRequest\<close>,
  \<^verbatim>\<open>handleTransactionResponse\<close>, \<^verbatim>\<open>handlePersonalSignRequest\<close>, \<^verbatim>\<open>handleSignResponse\<close>
  and \<^verbatim>\<open>handleWeb3Request\<close> (which nothing calls); the script imports no other script.
  \<open>global_function\<close> maps a name to the declared function that takes
  \<^verbatim>\<open>(message, sender, sendResponse)\<close>, if there is one. Calling a name without a
  declaration throws a \<^verbatim>\<open>ReferenceError\<close> before anything else happens.
\<close>

definition global_function :: "string \<Rightarrow> (env \<Rightarrow> message \<Rightarrow> bg_state \<Rightarrow> storage \<Rightarrow> bg_step) option" where
  "global_function name =
     (if name = ''handleConnectRequest'' then Some handleConnectRequest
      else if name = ''handleSwitchChainRequest'' then Some handleSwitchChainRequest
      else if name = ''handleAddChainRequest'' then Some handleAddChainRequest
      else if name = ''handleSendTransactionRequest'' then Some handleSendTransactionRequest
      else if name = ''handlePersonalSignRequest'' then Some handlePersonalSignRequest
      else None)"

definition invoke :: "string \<Rightarrow> env \<Rightarrow> message \<Rightarrow> bg_state \<Rightarrow> storage \<Rightarrow> bg_step" where
  "invoke name e msg st store =
     (case global_function name of
        None \<Rightarrow> (Some (ReferenceError name), st, store, [])
      | Some f \<Rightarrow> f e msg st store)"

type_synonym listener_step = "listener_return \<times> bg_state \<times> storage \<times> effect list"

text \<open>
  \<open>request keep step\<close>: the listener calls a request handler and then returns \<open>keep\<close>;
  an exception of the call leaves the listener. \<open>decided step\<close>: the listener starts a
  decision handler, answers the popup with \<^verbatim>\<open>{success: true}\<close> and returns; the
  handler's storage callback runs afterwards.
\<close>

definition request :: "bool \<Rightarrow> bg_step \<Rightarrow> listener_step" where
  "request keep step =
     (case step of
        (None, st, store, effs) \<Rightarrow> (Returned keep, st, store, effs)
      | (Some ex, st, store, effs) \<Rightarrow> (Threw ex, st, store, effs))"

definition decided :: "bg_step \<Rightarrow> listener_step" where
  "decided step =
     (case step of (ex, st, store, effs) \<Rightarrow> (Returned False, st, store, SendResponse RespSuccess # effs))"

definition logout_notifications :: "tab list \<Rightarrow> (string \<times> connected_site) list \<Rightarrow> effect list" where
  "logout_notifications ts sites =
     concat (map (\<lambda>site.
        (case map_of sites site of
           None \<Rightarrow> []
         | Some s \<Rightarrow>
             if site_connected s
             then notifyConnectedSite ts site ''accountsChanged'' (EvAccounts [])
                  @ notifyConnectedSite ts site ''disconnect''
                      (EvDisconnect 1000 ''User logged out of wallet'')
             else [])) (map fst sites))"

definition chain_notifications ::
  "tab list \<Rightarrow> (string \<times> connected_site) list \<Rightarrow> string option \<Rightarrow> effect list" where
  "chain_notifications ts sites chainId =
     concat (map (\<lambda>site.
        (case map_of sites site of
           None \<Rightarrow> []
         | Some s \<Rightarrow>
             if site_connected s
             then notifyConnectedSite ts site ''chainChanged'' (EvChainId chainId)
             else [])) (map fst sites))"

text \<open>
  The first listener. The \<^verbatim>\<open>EXECUTE_TRANSACTION\<close> branch (a storage read followed by a call
  of the undeclared \<^verbatim>\<open>executeTransaction\<close>) is outside this embedding and marked so.
\<close>

datatype embedded = Embedded listener_step | NotEmbedded

definition onMessage1 :: "env \<Rightarrow> message \<Rightarrow> bg_state \<Rightarrow> storage \<Rightarrow> embedded" where
  "onMessage1 e msg st store =
     (if m_type msg = ''LOGOUT''
      then Embedded (Returned False,
             st\<lparr>accounts := [], isUnlocked := False, connectedSites := []\<rparr>, store,
             SendResponse RespSuccess # logout_notifications (tabs e) (connectedSites st))
      else if m_type msg = ''CHAIN_CHANGED''
      then Embedded (Returned False, st\<lparr>selectedChainId := m_chainId msg\<rparr>, store,
             chain_notifications (tabs e) (connectedSites st) (m_chainId msg))
      else if m_type msg = ''APPROVE_CONNECT''
      then Embedded (decided
             (handleConnectResponse e (m_requestId msg) (m_approved msg) None st store))
      else if m_type msg = ''APPROVE_TRANSACTION''
      then Embedded (decided
             (handleTransactionResponse e (m_requestId msg) (m_approved msg) None st store))
      else if m_type msg = ''CONNECT_REQUEST''
      then Embedded (request True (invoke ''handleConnectRequest'' e msg st store))
      else if m_type msg = ''GET_ACCOUNTS_REQUEST''
      then Embedded (request False (invoke ''handleGetAccountsRequest'' e msg st store))
      else if m_type msg = ''GET_CHAINID_REQUEST''
      then Embedded (request False (invoke ''handleGetChainIdRequest'' e msg st store))
      else if m_type msg = ''SEND_TRANSACTION_REQUEST''
      then Embedded (request True (invoke ''handleSendTransactionRequest'' e msg st store))
      else if m_type msg = ''SIGN_TRANSACTION_REQUEST''
      then Embedded (request True (invoke ''handleSignTransactionRequest'' e msg st store))
      else if m_type msg = ''GET_BALANCE_REQUEST''
      then Embedded (request False (invoke ''handleGetBalanceRequest'' e msg st store))
      else if m_type msg = ''PERSONAL_SIGN_REQUEST''
      then Embedded (request True (invoke ''handlePersonalSignRequest'' e msg st store))
      else if m_type msg = ''ETH_SIGN_REQUEST''
      then Embedded (request True (invoke ''handleEthSignRequest'' e msg st store))
      else if m_type msg = ''TYPED_SIGN_REQUEST''
      then Embedded (request True (invoke ''handleTypedSignRequest'' e msg st store))
      else if m_type msg = ''WATCH_ASSET_REQUEST''
      then Embedded (request True (invoke ''handleWatchAssetRequest'' e msg st store))
      else if m_type msg = ''ADD_CHAIN_REQUEST''
      then Embedded (request True (invoke ''handleAddChainRequest'' e msg st store))
      else if m_type msg = ''SWITCH_CHAIN_REQUEST''
      then Embedded (request True (invoke ''handleSwitchChainRequest'' e msg st store))
      else if m_type msg = ''EXECUTE_TRANSACTION''
      then NotEmbedded
      else if m_type msg = ''EXECUTE_SIGNING''
      then Embedded (Returned True, st, store, [])
      else Embedded (Returned False, st, store, []))"

text \<open>The second listener, registered at the end of the script.\<close>

definition onMessage2 :: "env \<Rightarrow> message \<Rightarrow> bg_state \<Rightarrow> storage \<Rightarrow> listener_step" where
  "onMessage2 e msg st store =
     (if m_type msg = ''APPROVE_SWITCH_CHAIN''
      then decided (handleSwitchChainResponse e (m_requestId msg) (m_approved msg) st store)
      else if m_type msg = ''APPROVE_ADD_CHAIN''
      then decided (handleAddChainResponse e (m_requestId msg) (m_approved msg)
                      (m_switchToChain msg) st store)
      else if m_type msg = ''APPROVE_SIGN''
      then decided (handleSignResponse e (m_requestId msg) (m_approved msg)
                      (m_signature msg) st store)
      else (Returned False, st, store, []))"

text \<open>
  One message is given to both listeners, in registration order; an exception of the
  first does not keep the second from running. The result lists what each listener
  returned, the state and storage afterwards, and all effects.
\<close>

definition dispatch ::
  "env \<Rightarrow> message \<Rightarrow> bg_state \<Rightarrow> storage \<Rightarrow> (listener_return list \<times> bg_state \<times> storage \<times> effect list) option"
  where
  "dispatch e msg st store =
     (case onMessage1 e msg st store of
        NotEmbedded \<Rightarrow> None
      | Embedded (r1, st1, store1, effs1) \<Rightarrow>
          (case onMessage2 e msg st1 store1 of
             (r2, st2, store2, effs2) \<Rightarrow> Some ([r1, r2], st2, store2, effs1 @ effs2)))"

text \<open>The reply the sender of a message receives: the first \<^verbatim>\<open>sendResponse\<close>, if any.\<close>

fun first_response :: "effect list \<Rightarrow> response option" where
  "first_response [] = None"
| "first_response (SendResponse r # effs) = Some r"
| "first_response (_ # effs) = first_response effs"

fun tab_messages :: "effect list \<Rightarrow> (nat \<times> tab_message) list" where
  "tab_messages [] = []"
| "tab_messages (TabsSendMessage i m # effs) = (i, m) # tab_messages effs"
| "tab_messages (_ # effs) = tab_messages effs"

fun popups :: "effect list \<Rightarrow> (string \<times> request_id option) list" where
  "popups [] = []"
| "popups (OpenPopup ty rid # effs) = (ty, rid) # popups effs"
| "popups (_ # effs) = popups effs"

section \<open>Content script: requests of the page\<close>

text \<open>
  What the page provider posts with \<^verbatim>\<open>_sendRequest(method, params)\<close>: one constructor
  for each \<^verbatim>\<open>case\<close> of the content script's \<^verbatim>\<open>switch (method)\<close>, with the parameters
  that case reads, and \<open>OtherMethod\<close> for the \<^verbatim>\<open>default\<close> branch.
\<close>

datatype rpc_request =
    EthRequestAccounts
  | EthAccounts
  | EthChainId
  | EthSendTransaction tx_param
  | PersonalSign "string option" "string option"
  | EthSign "string option" "string option"
  | EthSignTypedDataV4 "string option" "string option"
  | EthGetBalance "string option" "string option"
  | WalletSwitchEthereumChain "string option"
  | WalletAddEthereumChain "chain_data option"
  | OtherMethod string

text \<open>The value a handler of the content script resolves its promise with.\<close>

datatype relay_value =
    VConnected "string list" "string option"
  | VAccounts "string list"
  | VString string
  | VNull

text \<open>A promise: resolved, rejected, or still waiting for a later message or timer.\<close>

datatype 'a promise = Fulfilled 'a | RejectedWith thrown | StillPending

text \<open>What the content script posts to the page with \<^verbatim>\<open>window.postMessage\<close>.\<close>

datatype page_message =
    CrossnetResult string relay_value
  | CrossnetError string rpc_error
  | WalletEventPost "string option" "evdata option"
  | StateUpdatePost "wallet_state option"

text \<open>
  The content script of one tab. An entry of \<^verbatim>\<open>pendingRequestsMap\<close> holds the
  \<^verbatim>\<open>resolve\<close>/\<^verbatim>\<open>reject\<close> pair of the promise that the \<^verbatim>\<open>message\<close> listener awaits for
  one page request; it is represented by the \<^verbatim>\<open>id\<close> of that page request.
\<close>

record relay_state =
  location_origin :: string
  pendingRequestsMap :: "(request_id \<times> string) list"
  nextRequestId :: nat
  crossNetWalletState :: "wallet_state option"

text \<open>The properties of a reply of the background script that the content script reads.\<close>

datatype js_err = ErrStr string | ErrObj rpc_error

fun r_success :: "response \<Rightarrow> bool" where
  "r_success RespSuccess = True"
| "r_success (RespConnected accs c) = True"
| "r_success _ = False"

fun r_accounts :: "response \<Rightarrow> string list option" where
  "r_accounts (RespConnected accs c) = Some accs"
| "r_accounts _ = None"

fun r_chainId :: "response \<Rightarrow> string option" where
  "r_chainId (RespConnected accs c) = Some c"
| "r_chainId (RespChainId c) = c"
| "r_chainId _ = None"

fun r_waiting :: "response \<Rightarrow> bool" where
  "r_waiting RespWaiting = True"
| "r_waiting _ = False"

text \<open>No reply of the background script has a \<^verbatim>\<open>result\<close> property.\<close>

fun r_result :: "response \<Rightarrow> string option" where
  "r_result _ = None"

text \<open>\<^verbatim>\<open>response.error\<close>, when it is truthy.\<close>

fun r_error :: "response \<Rightarrow> js_err option" where
  "r_error (RespErrorStr s) = (if s = [] then None else Some (ErrStr s))"
| "r_error (RespFailure s) = (if s = [] then None else Some (ErrStr s))"
| "r_error (RespError e) = Some (ErrObj e)"
| "r_error _ = None"

text \<open>
  \<^verbatim>\<open>new Error(x)\<close>: the message is \<^verbatim>\<open>String(x)\<close>, which for an object is
  \<^verbatim>\<open>[object Object]\<close>.
\<close>

fun new_Error :: "js_err \<Rightarrow> thrown" where
  "new_Error (ErrStr s) = JsError s"
| "new_Error (ErrObj e) = JsError ''[object Object]''"

definition bgmsg :: "string \<Rightarrow> msg_data \<Rightarrow> message" where
  "bgmsg t d = \<lparr>m_type = t, m_requestId = None, m_approved = False, m_accounts = None,
                m_origin = None, m_chainId = None, m_switchToChain = False, m_txHash = None,
                m_signature = None, m_data = Some d\<rparr>"

text \<open>
  \<^verbatim>\<open>data\<close> with the request id and, where the handler stamps it, the page's origin
  (\<^verbatim>\<open>favicon\<close> and \<^verbatim>\<open>title\<close> are not read by the background script and are left out).
\<close>

definition data_of :: "nat \<Rightarrow> string option \<Rightarrow> msg_data" where
  "data_of n origin =
     \<lparr>d_origin = origin, d_requestId = Some (NumId n), d_chainId = None, d_chainData = None,
      d_transaction = TxUndefined, d_msgData = None, d_typedData = None, d_address = None\<rparr>"

text \<open>
  The message a handler sends for a page request. Every handler first takes
  \<^verbatim>\<open>nextRequestId++\<close> as the request id.
\<close>

fun relay_message :: "relay_state \<Rightarrow> rpc_request \<Rightarrow> message" where
  "relay_message rs EthRequestAccounts =
     bgmsg ''CONNECT_REQUEST'' (data_of (nextRequestId rs) (Some (location_origin rs)))"
| "relay_message rs EthAccounts = bgmsg ''GET_ACCOUNTS_REQUEST'' (data_of (nextRequestId rs) None)"
| "relay_message rs EthChainId = bgmsg ''GET_CHAINID_REQUEST'' (data_of (nextRequestId rs) None)"
| "relay_message rs (EthSendTransaction tx) =
     bgmsg ''SEND_TRANSACTION_REQUEST''
       ((data_of (nextRequestId rs) (Some (location_origin rs)))\<lparr>d_transaction := tx\<rparr>)"
| "relay_message rs (PersonalSign msgData address) =
     bgmsg ''PERSONAL_SIGN_REQUEST''
       ((data_of (nextRequestId rs) (Some (location_origin rs)))
          \<lparr>d_msgData := msgData, d_address := address\<rparr>)"
| "relay_message rs (EthSign address msgData) =
     bgmsg ''ETH_SIGN_REQUEST''
       ((data_of (nextRequestId rs) (Some (location_origin rs)))
          \<lparr>d_msgData := msgData, d_address := address\<rparr>)"
| "relay_message rs (EthSignTypedDataV4 address typedData) =
     bgmsg ''TYPED_SIGN_REQUEST''
       ((data_of (nextRequestId rs) (Some (location_origin rs)))
          \<lparr>d_typedData := typedData, d_address := address\<rparr>)"
| "relay_message rs (EthGetBalance address blockTag) =
     bgmsg ''GET_BALANCE_REQUEST'' ((data_of (nextRequestId rs) None)\<lparr>d_address := address\<rparr>)"
| "relay_message rs (WalletSwitchEthereumChain chainId) =
     bgmsg ''SWITCH_CHAIN_REQUEST''
       ((data_of (nextRequestId rs) (Some (location_origin rs)))\<lparr>d_chainId := chainId\<rparr>)"
| "relay_message rs (WalletAddEthereumChain chainData) =
     bgmsg ''ADD_CHAIN_REQUEST''
       ((data_of (nextRequestId rs) (Some (location_origin rs)))\<lparr>d_chainData := chainData\<rparr>)"
| "relay_message rs (OtherMethod m) = bgmsg ''RPC_REQUEST'' (data_of (nextRequestId rs) None)"

section \<open>Content script: replies, decisions and events\<close>

text \<open>
  The \<^verbatim>\<open>catch\<close> of the \<^verbatim>\<open>message\<close> listener turns a rejection into an error for the page:
  the message is \<^verbatim>\<open>error.message || 'Unknown error'\<close>, and the code is chosen by
  searching that message.
\<close>

fun thrown_message :: "thrown \<Rightarrow> string" where
  "thrown_message (JsError m) = (if m = [] then ''Unknown error'' else m)"
| "thrown_message (ErrObject e) = (if err_message e = [] then ''Unknown error'' else err_message e)"

definition error_code_for :: "string \<Rightarrow> int" where
  "error_code_for errorMessage =
     (if js_includes errorMessage ''user rejected'' then 4001
      else if js_includes errorMessage ''not connected'' then 4100
      else if js_includes errorMessage ''chain ID'' then 4901
      else - 32603)"

text \<open>What the listener posts once the handler's promise for the page request \<open>pid\<close> settles.\<close>

fun respond :: "string \<Rightarrow> relay_value promise \<Rightarrow> page_message list" where
  "respond pid (Fulfilled v) = [CrossnetResult pid v]"
| "respond pid (RejectedWith err) =
     [CrossnetError pid (RpcError (error_code_for (thrown_message err)) (thrown_message err))]"
| "respond pid StillPending = []"

text \<open>
  The common tail of the handlers that may wait for a decision: \<^verbatim>\<open>waiting\<close> stores the
  promise under the request id, \<^verbatim>\<open>error\<close> rejects with \<^verbatim>\<open>new Error(response.error)\<close>,
  anything else is an invalid reply.
\<close>

definition wait_or_fail ::
  "nat \<Rightarrow> string \<Rightarrow> response \<Rightarrow> relay_state \<Rightarrow> relay_value promise \<times> relay_state" where
  "wait_or_fail n pid r rs =
     (if r_waiting r
      then (StillPending,
            rs\<lparr>pendingRequestsMap := AList.update (NumId n) pid (pendingRequestsMap rs)\<rparr>)
      else (case r_error r of
              Some err \<Rightarrow> (RejectedWith (new_Error err), rs)
            | None \<Rightarrow> (RejectedWith (JsError ''Invalid response from wallet''), rs)))"

definition first_or_null :: "string list \<Rightarrow> string option" where
  "first_or_null accs = (case accs of [] \<Rightarrow> None | a # _ \<Rightarrow> if a = [] then None else Some a)"

text \<open>
  \<open>relay_reply call n pid reply\<close>: the \<^verbatim>\<open>.then\<close>/\<^verbatim>\<open>.catch\<close> of the handler for \<open>call\<close>, with
  request id \<open>n\<close>, for the page request \<open>pid\<close>. \<open>reply\<close> is what
  \<^verbatim>\<open>backgroundConnection.sendMessage\<close> resolves with: the answer to the request, or
  \<open>None\<close> when none arrives, in which case the first timer to fire rejects the promise
  (\<^verbatim>\<open>sendMessage\<close>'s own after 30 seconds; for \<^verbatim>\<open>handleGetBalanceRequest\<close> and
  \<^verbatim>\<open>forwardRpcRequest\<close> the handler's, set earlier with the same delay). The one-minute
  timer of a request that waits for a decision is not embedded. The equations follow
  \<^verbatim>\<open>handleConnectRequest\<close>, \<^verbatim>\<open>handleGetAccountsRequest\<close>, \<^verbatim>\<open>handleGetChainIdRequest\<close>,
  \<^verbatim>\<open>handleGetBalanceRequest\<close>, \<^verbatim>\<open>forwardRpcRequest\<close>, \<^verbatim>\<open>handleSwitchChainRequest\<close> and
  \<^verbatim>\<open>handleAddChainRequest\<close> of the content script; the last two are
  \<^verbatim>\<open>handleTransactionRequest\<close> and \<^verbatim>\<open>handleSignRequest\<close>, which have the same body.
\<close>

fun relay_reply ::
  "rpc_request \<Rightarrow> nat \<Rightarrow> string \<Rightarrow> response option \<Rightarrow> relay_state \<Rightarrow> relay_value promise \<times> relay_state"
  where
  "relay_reply EthRequestAccounts n pid None rs = (RejectedWith (JsError ''Response timeout''), rs)"
| "relay_reply EthRequestAccounts n pid (Some r) rs =
     (case r_accounts r of
        Some accs \<Rightarrow>
          (if r_success r
           then (Fulfilled (VConnected accs (r_chainId r)),
                 rs\<lparr>crossNetWalletState :=
                      Some \<lparr>ws_connected = True, ws_accounts = accs, ws_chainId = r_chainId r,
                            ws_selectedAddress = first_or_null accs\<rparr>\<rparr>)
           else wait_or_fail n pid r rs)
      | None \<Rightarrow> wait_or_fail n pid r rs)"
| "relay_reply EthAccounts n pid None rs = (Fulfilled (VAccounts []), rs)"
| "relay_reply EthAccounts n pid (Some r) rs =
     (case r_accounts r of
        Some accs \<Rightarrow> (Fulfilled (VAccounts accs), rs)
      | None \<Rightarrow> (Fulfilled (VAccounts []), rs))"
| "relay_reply EthChainId n pid None rs = (RejectedWith (JsError ''Response timeout''), rs)"
| "relay_reply EthChainId n pid (Some r) rs =
     (if truthy (r_chainId r) then (Fulfilled (VString (str_of (r_chainId r))), rs)
      else (RejectedWith (JsError ''Could not get chain ID''), rs))"
| "relay_reply (EthGetBalance a b) n pid None rs =
     (RejectedWith (JsError ''Get balance request timed out''), rs)"
| "relay_reply (EthGetBalance a b) n pid (Some r) rs =
     (case r_result r of
        Some v \<Rightarrow> (Fulfilled (VString v), rs)
      | None \<Rightarrow>
          (case r_error r of
             Some err \<Rightarrow> (RejectedWith (new_Error err), rs)
           | None \<Rightarrow> (RejectedWith (JsError ''Invalid response from wallet''), rs)))"
| "relay_reply (OtherMethod m) n pid None rs =
     (RejectedWith (JsError ''RPC request timed out''), rs)"
| "relay_reply (OtherMethod m) n pid (Some r) rs =
     (case r_result r of
        Some v \<Rightarrow> (Fulfilled (VString v), rs)
      | None \<Rightarrow>
          (case r_error r of
             Some err \<Rightarrow> (RejectedWith (new_Error err), rs)
           | None \<Rightarrow> (RejectedWith (JsError ''Invalid response from wallet''), rs)))"
| "relay_reply (WalletSwitchEthereumChain c) n pid None rs =
     (RejectedWith (JsError ''Response timeout''), rs)"
| "relay_reply (WalletSwitchEthereumChain c) n pid (Some r) rs =
     (if r_success r then (Fulfilled VNull, rs) else wait_or_fail n pid r rs)"
| "relay_reply (WalletAddEthereumChain c) n pid None rs =
     (RejectedWith (JsError ''Response timeout''), rs)"
| "relay_reply (WalletAddEthereumChain c) n pid (Some r) rs =
     (if r_success r then (Fulfilled VNull, rs) else wait_or_fail n pid r rs)"
| "relay_reply call n pid None rs = (RejectedWith (JsError ''Response timeout''), rs)"
| "relay_reply call n pid (Some r) rs =
     (if truthy (r_result r) then (Fulfilled (VString (str_of (r_result r))), rs)
      else wait_or_fail n pid r rs)"

text \<open>
  One page request, end to end inside the content script: the handler takes the next
  request id, sends its message through \<open>transport\<close> (the answer it resolves with, or
  \<open>None\<close>), and the listener posts the outcome to the page.
\<close>

definition relay_request ::
  "(message \<Rightarrow> response option) \<Rightarrow> string \<Rightarrow> rpc_request \<Rightarrow> relay_state \<Rightarrow> page_message list \<times> relay_state"
  where
  "relay_request transport pid call rs =
     (case relay_reply call (nextRequestId rs) pid (transport (relay_message rs call))
             (rs\<lparr>nextRequestId := nextRequestId rs + 1\<rparr>) of
        (p, rs') \<Rightarrow> (respond pid p, rs'))"

text \<open>
  A message of the background script settles the waiting promise of its request id, if
  there is one, and removes the entry.
\<close>

definition settle_pending ::
  "request_id option \<Rightarrow> relay_value promise \<Rightarrow> relay_state \<Rightarrow> page_message list \<times> relay_state" where
  "settle_pending requestId outcome rs =
     (case requestId of
        None \<Rightarrow> ([], rs)
      | Some r \<Rightarrow>
          (case map_of (pendingRequestsMap rs) r of
             None \<Rightarrow> ([], rs)
           | Some pid \<Rightarrow>
               (respond pid outcome,
                rs\<lparr>pendingRequestsMap := AList.delete r (pendingRequestsMap rs)\<rparr>)))"

text \<open>
  \<^verbatim>\<open>handleTransactionResponse\<close> and \<^verbatim>\<open>handleSignResponse\<close> of the content script:
  \<^verbatim>\<open>if (approved && result) resolve(result) else reject(error || new Error(...))\<close>.
\<close>

definition result_or_reject :: "string \<Rightarrow> tab_message \<Rightarrow> relay_value promise" where
  "result_or_reject fallback m =
     (if tm_approved m \<and> truthy (tm_result m) then Fulfilled (VString (str_of (tm_result m)))
      else (case tm_error m of
              Some err \<Rightarrow> RejectedWith (ErrObject err)
            | None \<Rightarrow> RejectedWith (JsError fallback)))"

definition cs_handleTransactionResponse ::
  "tab_message \<Rightarrow> relay_state \<Rightarrow> page_message list \<times> relay_state" where
  "cs_handleTransactionResponse m rs =
     settle_pending (tm_requestId m) (result_or_reject ''Transaction rejected'' m) rs"

definition cs_handleSignResponse ::
  "tab_message \<Rightarrow> relay_state \<Rightarrow> page_message list \<times> relay_state" where
  "cs_handleSignResponse m rs =
     settle_pending (tm_requestId m) (result_or_reject ''Signing rejected'' m) rs"

text \<open>
  The \<^verbatim>\<open>chrome.runtime.onMessage\<close> listener of the content script. The first component
  tells whether the listener called \<^verbatim>\<open>sendResponse({success: true})\<close>; in the
  \<^verbatim>\<open>default\<close> branch it does not.
\<close>

definition relay_onMessage ::
  "tab_message \<Rightarrow> relay_state \<Rightarrow> bool \<times> page_message list \<times> relay_state" where
  "relay_onMessage m rs =
     (if tm_type m = ''SEND_TRANSACTION_RESPONSE''
      then (case cs_handleTransactionResponse m rs of (posts, rs') \<Rightarrow> (True, posts, rs'))
      else if tm_type m = ''PERSONAL_SIGN_RESPONSE'' \<or> tm_type m = ''ETH_SIGN_RESPONSE''
              \<or> tm_type m = ''TYPED_SIGN_RESPONSE''
      then (case cs_handleSignResponse m rs of (posts, rs') \<Rightarrow> (True, posts, rs'))
      else if tm_type m = ''SWITCH_CHAIN_RESPONSE'' \<or> tm_type m = ''ADD_CHAIN_RESPONSE''
      then (case settle_pending (tm_requestId m)
                   (if tm_approved m then Fulfilled VNull
                    else (case tm_error m of
                            Some err \<Rightarrow> RejectedWith (new_Error (ErrObj err))
                          | None \<Rightarrow> RejectedWith (JsError ''Request rejected''))) rs of
              (posts, rs') \<Rightarrow> (True, posts, rs'))
      else if tm_type m = ''CROSSNET_STATE_UPDATE''
      then (True, [StateUpdatePost (tm_data m)], rs)
      else if tm_type m = ''CONNECT''
      then (True, [WalletEventPost (Some ''connect'') (Some (EvConnect (tm_chainId m)))],
            rs\<lparr>crossNetWalletState :=
                 Some \<lparr>ws_connected = True,
                       ws_accounts = (case tm_accounts m of None \<Rightarrow> [] | Some accs \<Rightarrow> accs),
                       ws_chainId = tm_chainId m,
                       ws_selectedAddress =
                         (case tm_accounts m of None \<Rightarrow> None | Some accs \<Rightarrow> first_or_null accs)\<rparr>\<rparr>)
      else if tm_type m = ''DISCONNECT''
      then (let ws = \<lparr>ws_connected = False, ws_accounts = [],
                      ws_chainId = (case crossNetWalletState rs of
                                      None \<Rightarrow> None | Some old \<Rightarrow> ws_chainId old),
                      ws_selectedAddress = None\<rparr>
            in (True,
                [StateUpdatePost (Some ws),
                 WalletEventPost (Some ''disconnect'')
                   (Some (EvDisconnect 1000 ''Connection closed by wallet''))],
                rs\<lparr>crossNetWalletState := Some ws\<rparr>))
      else if tm_type m = ''WALLET_EVENT''
      then (True, [WalletEventPost (tm_eventName m) (tm_eventData m)], rs)
      else (False, [], rs))"

section \<open>Page provider: state and responses\<close>

text \<open>
  \<^verbatim>\<open>parseInt(s, 16).toString()\<close>: leading white space, a sign and a \<^verbatim>\<open>0x\<close> prefix are
  skipped, the longest run of hexadecimal digits is read, and no digit at all gives
  \<^verbatim>\<open>NaN\<close>. (JavaScript numbers are exact up to \<open>2^53\<close>; chain ids are far below.)
\<close>

definition hex_val :: "char \<Rightarrow> nat option" where
  "hex_val c =
     (let n = (of_char c :: nat)
      in if 48 \<le> n \<and> n \<le> 57 then Some (n - 48)
         else if 97 \<le> n \<and> n \<le> 102 then Some (n - 87)
         else if 65 \<le> n \<and> n \<le> 70 then Some (n - 55)
         else None)"

fun hex_run :: "string \<Rightarrow> nat option \<Rightarrow> nat option" where
  "hex_run [] acc = acc"
| "hex_run (c # cs) acc =
     (case hex_val c of
        None \<Rightarrow> acc
      | Some d \<Rightarrow> hex_run cs (Some (16 * (case acc of None \<Rightarrow> 0 | Some a \<Rightarrow> a) + d)))"

definition js_space :: "char \<Rightarrow> bool" where
  "js_space c = ((of_char c :: nat) \<in> {9, 10, 11, 12, 13, 32})"

fun strip_sign :: "string \<Rightarrow> bool \<times> string" where
  "strip_sign [] = (False, [])"
| "strip_sign (c # cs) =
     (if c = CHR ''-'' then (True, cs) else if c = CHR ''+'' then (False, cs) else (False, c # cs))"

definition parseInt16 :: "string \<Rightarrow> int option" where
  "parseInt16 s =
     (case strip_sign (dropWhile js_space s) of
        (neg, u) \<Rightarrow>
          (case hex_run (if startsWith u ''0x'' \<or> startsWith u ''0X'' then drop 2 u else u) None of
             None \<Rightarrow> None
           | Some n \<Rightarrow> Some (if neg then - int n else int n)))"

fun dec_digits :: "nat \<Rightarrow> string" where
  "dec_digits n =
     (if n < 10 then [char_of (48 + n)] else dec_digits (n div 10) @ [char_of (48 + n mod 10)])"

definition number_toString :: "int option \<Rightarrow> string" where
  "number_toString v =
     (case v of
        None \<Rightarrow> ''NaN''
      | Some i \<Rightarrow> if i < 0 then CHR ''-'' # dec_digits (nat (- i)) else dec_digits (nat i))"

definition decimal_of_chain :: "string option \<Rightarrow> string" where
  "decimal_of_chain chainId = number_toString (parseInt16 (str_of chainId))"

text \<open>
  The state of \<^verbatim>\<open>crossNetWallet\<close>. \<open>awaiting\<close> lists the response handlers that
  \<^verbatim>\<open>_sendRequest\<close> has registered and not yet removed, each with the method that awaits
  it: these are the operations in flight.
\<close>

datatype continuation =
    KConnect
  | KGetAccounts
  | KGetChainId
  | KSwitchChain "string option"
  | KAddChain chain_data
  | KResult

record provider =
  isConnected :: bool
  p_accounts :: "string list"
  p_chainId :: "string option"
  selectedAddress :: "string option"
  networkVersion :: "string option"
  connected :: bool
  chainSwitchInProgress :: bool
  awaiting :: "(string \<times> continuation) list"

text \<open>
  \<^verbatim>\<open>event.data\<close> of a \<^verbatim>\<open>CROSSNET_RESPONSE\<close> as the provider reads it. The content script
  posts \<^verbatim>\<open>{type, id, result, success}\<close> or \<^verbatim>\<open>{type, id, error, success}\<close>, so in its
  messages \<^verbatim>\<open>accounts\<close>, \<^verbatim>\<open>chainId\<close> and \<^verbatim>\<open>switched\<close> are missing.
\<close>

record crossnet_response =
  cr_id :: string
  cr_result :: "relay_value option"
  cr_error :: "js_err option"
  cr_success :: bool
  cr_accounts :: "string list option"
  cr_chainId :: "string option"
  cr_switched :: bool

fun from_relay :: "page_message \<Rightarrow> crossnet_response option" where
  "from_relay (CrossnetResult pid v) =
     Some \<lparr>cr_id = pid, cr_result = Some v, cr_error = None, cr_success = True,
           cr_accounts = None, cr_chainId = None, cr_switched = False\<rparr>"
| "from_relay (CrossnetError pid e) =
     Some \<lparr>cr_id = pid, cr_result = None, cr_error = Some (ErrObj e), cr_success = False,
           cr_accounts = None, cr_chainId = None, cr_switched = False\<rparr>"
| "from_relay _ = None"

text \<open>An error thrown by the provider: \<^verbatim>\<open>_createRPCError\<close> sets a code, \<^verbatim>\<open>new Error\<close> none.\<close>

datatype perror = PError "int option" string

datatype p_value = PAccounts "string list" | PString "string option" | PValue "relay_value option" | PNull

datatype p_outcome = Resolves p_value | Rejects perror | Suspended

datatype peffect =
    Emit string "evdata option"
  | PostRequest string rpc_request
  | PConsoleError string

type_synonym p_step = "p_outcome \<times> provider \<times> peffect list"

text \<open>
  The response handler of \<^verbatim>\<open>_sendRequest\<close>: an error becomes
  \<^verbatim>\<open>_createRPCError(errorObj.code || -32603, errorObj.message || 'Unknown error')\<close>, and code
  4901 also emits \<^verbatim>\<open>chainChanged\<close> with \<^verbatim>\<open>null\<close>.
\<close>

fun rpc_error_of :: "js_err \<Rightarrow> perror" where
  "rpc_error_of (ErrStr s) = PError (Some (- 32603)) (if s = [] then ''Unknown error'' else s)"
| "rpc_error_of (ErrObj (RpcError c m)) =
     PError (Some (if c = 0 then - 32603 else c)) (if m = [] then ''Unknown error'' else m)"

fun error_is_truthy :: "js_err option \<Rightarrow> bool" where
  "error_is_truthy None = False"
| "error_is_truthy (Some (ErrStr s)) = (s \<noteq> [])"
| "error_is_truthy (Some (ErrObj e)) = True"

definition responseHandler :: "crossnet_response \<Rightarrow> (perror + crossnet_response) \<times> peffect list" where
  "responseHandler d =
     (case cr_error d of
        None \<Rightarrow> (Inr d, [])
      | Some err \<Rightarrow>
          if error_is_truthy (Some err)
          then (Inl (rpc_error_of err),
                (case rpc_error_of err of
                   PError code m \<Rightarrow>
                     if code = Some 4901 then [Emit ''chainChanged'' (Some (EvChainId None))] else []))
          else (Inr d, []))"

section \<open>Page provider: methods\<close>

text \<open>
  An \<^verbatim>\<open>async\<close> method runs in two steps: the call, up to its \<^verbatim>\<open>await this._sendRequest(...)\<close>,
  and the continuation once the response handler has resolved or rejected. \<open>send\<close>
  is \<^verbatim>\<open>_sendRequest\<close>: it registers the response handler for the request id \<open>pid\<close>
  (\<^verbatim>\<open>Date.now() + Math.random()...\<close>, taken from the environment) and posts the request.
  The 20-second retry timer of \<^verbatim>\<open>_sendRequest\<close> is outside this embedding.
  \<^verbatim>\<open>request({method, params})\<close> only selects the method by name:
  \<^verbatim>\<open>eth_requestAccounts\<close> is \<^verbatim>\<open>connect\<close>, \<^verbatim>\<open>eth_accounts\<close> is \<^verbatim>\<open>getAccounts\<close>,
  \<^verbatim>\<open>eth_chainId\<close> is \<^verbatim>\<open>getChainId\<close>, \<^verbatim>\<open>wallet_switchEthereumChain\<close> is
  \<^verbatim>\<open>switchChain(params[0].chainId)\<close> and \<^verbatim>\<open>wallet_addEthereumChain\<close> is
  \<^verbatim>\<open>addChain(params[0])\<close>.
\<close>

definition send :: "string \<Rightarrow> rpc_request \<Rightarrow> continuation \<Rightarrow> provider \<Rightarrow> p_step" where
  "send pid rq k p = (Suspended, p\<lparr>awaiting := awaiting p @ [(pid, k)]\<rparr>, [PostRequest pid rq])"

definition connect_call :: "string \<Rightarrow> provider \<Rightarrow> p_step" where
  "connect_call pid p = send pid EthRequestAccounts KConnect p"

definition getAccounts_call :: "string \<Rightarrow> provider \<Rightarrow> p_step" where
  "getAccounts_call pid p = send pid EthAccounts KGetAccounts p"

definition getChainId_call :: "string \<Rightarrow> provider \<Rightarrow> p_step" where
  "getChainId_call pid p = send pid EthChainId KGetChainId p"

definition sendTransaction_call :: "string \<Rightarrow> tx_param \<Rightarrow> provider \<Rightarrow> p_step" where
  "sendTransaction_call pid tx p =
     (if \<not> isConnected p
      then (Rejects (PError (Some 4100)
                       ''Wallet not connected. Connect first using eth_requestAccounts''), p, [])
      else send pid (EthSendTransaction tx) KResult p)"

definition personalSign_call :: "string \<Rightarrow> string option \<Rightarrow> string option \<Rightarrow> provider \<Rightarrow> p_step" where
  "personalSign_call pid msgData address p =
     (if \<not> isConnected p then (Rejects (PError None ''Wallet not connected''), p, [])
      else send pid (PersonalSign msgData address) KResult p)"

definition ethSign_call :: "string \<Rightarrow> string option \<Rightarrow> string option \<Rightarrow> provider \<Rightarrow> p_step" where
  "ethSign_call pid address msgData p =
     (if \<not> isConnected p then (Rejects (PError None ''Wallet not connected''), p, [])
      else send pid (EthSign address msgData) KResult p)"

definition signTypedData_call :: "string \<Rightarrow> string option \<Rightarrow> string option \<Rightarrow> provider \<Rightarrow> p_step" where
  "signTypedData_call pid address typedData p =
     (if \<not> isConnected p then (Rejects (PError None ''Wallet not connected''), p, [])
      else send pid (EthSignTypedDataV4 address typedData) KResult p)"

text \<open>
  \<^verbatim>\<open>switchChain(chainId)\<close> and \<^verbatim>\<open>addChain(chainData)\<close>. The guard on
  \<^verbatim>\<open>_chainSwitchInProgress\<close> throws inside the \<^verbatim>\<open>try\<close> block, and the \<^verbatim>\<open>catch\<close> block sets
  the flag to \<^verbatim>\<open>false\<close> before it rethrows.
\<close>

definition switchChain_call :: "string \<Rightarrow> string \<Rightarrow> provider \<Rightarrow> p_step" where
  "switchChain_call pid chainId p =
     (if chainSwitchInProgress p
      then (Rejects (PError (Some (- 32002)) ''Chain switch already in progress''),
            p\<lparr>chainSwitchInProgress := False\<rparr>, [PConsoleError ''Switch chain error''])
      else send pid (WalletSwitchEthereumChain (Some chainId)) (KSwitchChain (Some chainId))
             (p\<lparr>chainSwitchInProgress := True\<rparr>))"

definition addChain_call :: "string \<Rightarrow> chain_data \<Rightarrow> provider \<Rightarrow> p_step" where
  "addChain_call pid chainData p =
     (if chainSwitchInProgress p
      then (Rejects (PError (Some (- 32002)) ''Chain operation already in progress''),
            p\<lparr>chainSwitchInProgress := False\<rparr>, [PConsoleError ''Add chain error''])
      else if \<not> valid_chain_data (Some chainData)
      then (Rejects (PError (Some (- 32602))
                       ''Invalid chain data: chainId, chainName, and rpcUrls are required''),
            p\<lparr>chainSwitchInProgress := False\<rparr>, [PConsoleError ''Add chain error''])
      else send pid (WalletAddEthereumChain (Some chainData)) (KAddChain chainData)
             (p\<lparr>chainSwitchInProgress := True\<rparr>))"

text \<open>
  The continuations. \<^verbatim>\<open>getAccounts\<close> and \<^verbatim>\<open>getChainId\<close> read \<^verbatim>\<open>response.result\<close>, which
  the content script sets to an array and to a string respectively.
\<close>

fun result_accounts :: "relay_value option \<Rightarrow> string list" where
  "result_accounts (Some (VAccounts l)) = l"
| "result_accounts _ = []"

fun result_string :: "relay_value option \<Rightarrow> string option" where
  "result_string (Some (VString s)) = Some s"
| "result_string _ = None"

definition chain_events :: "string option \<Rightarrow> peffect list" where
  "chain_events chainId =
     [Emit ''chainChanged'' (Some (EvChainId chainId)),
      Emit ''networkChanged'' (Some (EvString (decimal_of_chain chainId))),
      Emit ''chainIdChanged'' (Some (EvChainId chainId))]"

fun resume :: "continuation \<Rightarrow> perror + crossnet_response \<Rightarrow> provider \<Rightarrow> p_step" where
  "resume KConnect (Inl err) p = (Rejects err, p, [PConsoleError ''Connection error''])"
| "resume KConnect (Inr d) p =
     (case cr_accounts d of
        Some (a # as) \<Rightarrow>
          (Resolves (PAccounts (a # as)),
           p\<lparr>p_accounts := a # as, selectedAddress := Some a, p_chainId := cr_chainId d,
             networkVersion := Some (decimal_of_chain (cr_chainId d)),
             isConnected := True, connected := True\<rparr>,
           [Emit ''accountsChanged'' (Some (EvAccounts (a # as))),
            Emit ''chainChanged'' (Some (EvChainId (cr_chainId d))),
            Emit ''connect'' (Some (EvConnect (cr_chainId d)))])
      | _ \<Rightarrow> (Resolves (PAccounts (p_accounts p)), p, []))"
| "resume KGetAccounts (Inl err) p =
     (Resolves (PAccounts []), p, [PConsoleError ''Get accounts error''])"
| "resume KGetAccounts (Inr d) p =
     (Resolves (PAccounts (result_accounts (cr_result d))),
      p\<lparr>p_accounts := result_accounts (cr_result d)\<rparr>, [])"
| "resume KGetChainId (Inl err) p =
     (Resolves (PString None), p, [PConsoleError ''Get chainId error''])"
| "resume KGetChainId (Inr d) p =
     (Resolves (PString (result_string (cr_result d))),
      p\<lparr>p_chainId := result_string (cr_result d)\<rparr>, [])"
| "resume (KSwitchChain chainId) (Inl err) p =
     (Rejects err, p\<lparr>chainSwitchInProgress := False\<rparr>, [PConsoleError ''Switch chain error''])"
| "resume (KSwitchChain chainId) (Inr d) p =
     (if cr_success d
      then (Resolves PNull,
            p\<lparr>p_chainId := chainId, networkVersion := Some (decimal_of_chain chainId),
              chainSwitchInProgress := False\<rparr>,
            (if p_chainId p \<noteq> chainId then chain_events chainId else []))
      else (Resolves PNull, p\<lparr>chainSwitchInProgress := False\<rparr>, []))"
| "resume (KAddChain chainData) (Inl err) p =
     (Rejects err, p\<lparr>chainSwitchInProgress := False\<rparr>, [PConsoleError ''Add chain error''])"
| "resume (KAddChain chainData) (Inr d) p =
     (if cr_success d \<and> cr_switched d
      then (Resolves PNull,
            p\<lparr>p_chainId := cd_chainId chainData,
              networkVersion := Some (decimal_of_chain (cd_chainId chainData)),
              chainSwitchInProgress := False\<rparr>,
            (if p_chainId p \<noteq> cd_chainId chainData
             then [Emit ''chainChanged'' (Some (EvChainId (cd_chainId chainData))),
                   Emit ''networkChanged''
                     (Some (EvString (decimal_of_chain (cd_chainId chainData))))]
             else []))
      else (Resolves PNull, p\<lparr>chainSwitchInProgress := False\<rparr>, []))"
| "resume KResult (Inl err) p = (Rejects err, p, [PConsoleError ''Request error''])"
| "resume KResult (Inr d) p = (Resolves (PValue (cr_result d)), p, [])"

text \<open>
  A \<^verbatim>\<open>CROSSNET_RESPONSE\<close> reaches the response handler registered under its id, which
  removes itself and lets the awaiting method continue; without such a handler the
  message is ignored (\<open>None\<close>).
\<close>

definition deliver :: "crossnet_response \<Rightarrow> provider \<Rightarrow> p_step option" where
  "deliver d p =
     (case map_of (awaiting p) (cr_id d) of
        None \<Rightarrow> None
      | Some k \<Rightarrow>
          (case responseHandler d of
             (r, effs) \<Rightarrow>
               (case resume k r (p\<lparr>awaiting := AList.delete (cr_id d) (awaiting p)\<rparr>) of
                  (out, p', effs') \<Rightarrow> Some (out, p', effs @ effs'))))"

text \<open>
  The other \<^verbatim>\<open>message\<close> listener of the page: a state update is compared with the local
  state (accounts by \<^verbatim>\<open>join(',')\<close>) and stored, and a \<^verbatim>\<open>WALLET_EVENT\<close> is emitted as it
  comes.
\<close>

fun join_comma :: "string list \<Rightarrow> string" where
  "join_comma [] = []"
| "join_comma [x] = x"
| "join_comma (x # y # zs) = x @ '','' @ join_comma (y # zs)"

fun page_listener :: "page_message \<Rightarrow> provider \<Rightarrow> provider \<times> peffect list" where
  "page_listener (WalletEventPost name eventData) p = (p, [Emit (str_of name) eventData])"
| "page_listener (StateUpdatePost (Some ws)) p =
     (p\<lparr>isConnected := ws_connected ws, p_accounts := ws_accounts ws, p_chainId := ws_chainId ws\<rparr>,
      (if join_comma (p_accounts p) \<noteq> join_comma (ws_accounts ws)
       then [Emit ''accountsChanged'' (Some (EvAccounts (ws_accounts ws)))] else [])
      @ (if p_chainId p \<noteq> ws_chainId ws
         then [Emit ''chainChanged'' (Some (EvChainId (ws_chainId ws)))] else []))"
| "page_listener _ p = (p, [])"

text \<open>
  Everything the page does with one message of the content script: which request
  completed and how, the provider afterwards, and the effects.
\<close>

definition page_receive ::
  "page_message \<Rightarrow> provider \<Rightarrow> (string \<times> p_outcome) option \<times> provider \<times> peffect list" where
  "page_receive m p =
     (case from_relay m of
        Some d \<Rightarrow>
          (case deliver d p of
             None \<Rightarrow> (None, p, [])
           | Some (out, p', effs) \<Rightarrow> (Some (cr_id d, out), p', effs))
      | None \<Rightarrow> (case page_listener m p of (p', effs) \<Rightarrow> (None, p', effs)))"

text \<open>The events a list of effects emits, in order.\<close>

fun emitted :: "peffect list \<Rightarrow> (string \<times> evdata option) list" where
  "emitted [] = []"
| "emitted (Emit name d # effs) = (name, d) # emitted effs"
| "emitted (_ # effs) = emitted effs"

section \<open>The three scripts together\<close>

text \<open>
  What the listeners of the background script answer when a message is handed to them:
  the argument of their first \<^verbatim>\<open>sendResponse\<close>, or none. The content script does not
  reach the listeners this way; it uses a port, see \<open>sendMessage\<close> below.
\<close>

definition bg_reply :: "env \<Rightarrow> bg_state \<Rightarrow> storage \<Rightarrow> message \<Rightarrow> response option" where
  "bg_reply e st store msg =
     (case dispatch e msg st store of
        None \<Rightarrow> None
      | Some (rets, st', store', effs) \<Rightarrow> first_response effs)"

text \<open>
  \<^verbatim>\<open>backgroundConnection.sendMessage(message)\<close>. The content script posts the message on
  the port it opened with \<^verbatim>\<open>chrome.runtime.connect\<close> (the port is taken to be open) and
  resolves with the first message arriving on that port whose \<^verbatim>\<open>requestId\<close>, or
  \<^verbatim>\<open>data.requestId\<close>, equals
  \<^verbatim>\<open>message.data?.requestId || message.requestId || Date.now().toString()\<close>. After 30
  seconds without such a message it rejects with \<^verbatim>\<open>Response timeout\<close>, which is the
  result \<open>None\<close>. \<open>arrivals\<close> are the messages that arrive on the port in that time, and
  \<open>t\<close> is \<^verbatim>\<open>Date.now()\<close>.
\<close>

record port_message =
  pm_requestId :: "request_id option"
  pm_data_requestId :: "request_id option"
  pm_response :: response

fun or_id :: "request_id option \<Rightarrow> request_id \<Rightarrow> request_id" where
  "or_id None b = b"
| "or_id (Some (NumId n)) b = (if n = 0 then b else NumId n)"
| "or_id (Some (StrId s)) b = (if s = [] then b else StrId s)"

definition sent_request_id :: "nat \<Rightarrow> message \<Rightarrow> request_id" where
  "sent_request_id t msg =
     or_id (case m_data msg of None \<Rightarrow> None | Some d \<Rightarrow> d_requestId d)
       (or_id (m_requestId msg) (StrId (dec_digits t)))"

definition answers :: "request_id \<Rightarrow> port_message \<Rightarrow> bool" where
  "answers requestId m = (pm_requestId m = Some requestId \<or> pm_data_requestId m = Some requestId)"

definition sendMessage :: "nat \<Rightarrow> port_message list \<Rightarrow> message \<Rightarrow> response option" where
  "sendMessage t arrivals msg =
     (case filter (answers (sent_request_id t msg)) arrivals of
        [] \<Rightarrow> None
      | m # _ \<Rightarrow> Some (pm_response m))"

text \<open>
  \<^verbatim>\<open>background.js\<close> registers no \<^verbatim>\<open>runtime.onConnect\<close> listener and posts on no port: a
  message on the content script's port reaches none of its handlers, and nothing
  arrives on the port.
\<close>

definition background_port_posts :: "port_message list" where
  "background_port_posts = []"

text \<open>The page receives the posts of its content script in order.\<close>

fun page_receive_all ::
  "page_message list \<Rightarrow> provider \<Rightarrow> (string \<times> p_outcome) list \<times> provider \<times> peffect list" where
  "page_receive_all [] p = ([], p, [])"
| "page_receive_all (m # ms) p =
     (case page_receive m p of
        (done, p1, effs1) \<Rightarrow>
          (case page_receive_all ms p1 of
             (outs, p2, effs2) \<Rightarrow>
               ((case done of None \<Rightarrow> outs | Some out \<Rightarrow> out # outs), p2, effs1 @ effs2)))"

text \<open>
  A tab is a content script together with the provider of its page. \<open>tab_receive\<close>: the
  tab is sent one message by the background script; \<open>messages_for\<close>: the messages a
  list of effects sends to the tab with a given id.
\<close>

definition tab_receive ::
  "tab_message \<Rightarrow> relay_state \<times> provider \<Rightarrow>
   (string \<times> p_outcome) list \<times> (relay_state \<times> provider) \<times> peffect list" where
  "tab_receive m tp =
     (case relay_onMessage m (fst tp) of
        (ack, posts, rs') \<Rightarrow>
          (case page_receive_all posts (snd tp) of
             (outs, p', effs) \<Rightarrow> (outs, (rs', p'), effs)))"

fun tab_receive_all ::
  "tab_message list \<Rightarrow> relay_state \<times> provider \<Rightarrow>
   (string \<times> p_outcome) list \<times> (relay_state \<times> provider) \<times> peffect list" where
  "tab_receive_all [] tp = ([], tp, [])"
| "tab_receive_all (m # ms) tp =
     (case tab_receive m tp of
        (outs1, tp1, effs1) \<Rightarrow>
          (case tab_receive_all ms tp1 of
             (outs2, tp2, effs2) \<Rightarrow> (outs1 @ outs2, tp2, effs1 @ effs2)))"

definition messages_for :: "nat \<Rightarrow> effect list \<Rightarrow> tab_message list" where
  "messages_for i effs = map snd (filter (\<lambda>im. fst im = i) (tab_messages effs))"

text \<open>
  \<open>round_trip\<close>: a request posted by the provider is handled by the content script,
  which sends its message with \<open>sendMessage\<close> and posts the outcome back to the page.
\<close>

definition round_trip ::
  "nat \<Rightarrow> port_message list \<Rightarrow> string \<Rightarrow> rpc_request \<Rightarrow> relay_state \<times> provider \<Rightarrow>
   (string \<times> p_outcome) list \<times> (relay_state \<times> provider) \<times> peffect list" where
  "round_trip t arrivals pid rq tp =
     (case relay_request (sendMessage t arrivals) pid rq (fst tp) of
        (posts, rs') \<Rightarrow>
          (case page_receive_all posts (snd tp) of
             (outs, p', effs) \<Rightarrow> (outs, (rs', p'), effs)))"

section \<open>Example values\<close>

definition dapp :: string where
  "dapp = ''https://dapp.example''"

definition alice :: string where
  "alice = ''0xabc''"

definition site_dapp :: connected_site where
  "site_dapp = \<lparr>site_origin = Some dapp, site_accounts = [alice], site_chainId = Some ''0x89'',
                site_connected = True, site_lastConnected = 500,
                site_permissions = [''eth_accounts''], site_timestamp = 500\<rparr>"

text \<open>A wallet without connected sites, and one to which \<open>dapp\<close> is connected.\<close>

definition st_fresh :: bg_state where
  "st_fresh = \<lparr>isUnlocked = True, accounts = [alice], selectedChainId = Some ''0x89'',
               connectedSites = [], customChains = []\<rparr>"

definition st_connected :: bg_state where
  "st_connected = st_fresh\<lparr>connectedSites := [(dapp, site_dapp)]\<rparr>"

definition store_empty :: storage where
  "store_empty = \<lparr>pendingConnectRequest = None, pendingChainRequest = None,
                  pendingAddChainRequest = None, pendingTransactionRequest = None,
                  pendingSignRequest = None, account = Some (ParsedAccount (Some alice))\<rparr>"

text \<open>One tab on \<open>dapp\<close>, and the same with a second tab on another site whose URL mentions \<open>dapp\<close>.\<close>

definition tab_dapp :: tab where
  "tab_dapp = \<lparr>tab_id = 7, tab_url = Some ''https://dapp.example/app''\<rparr>"

definition tab_other :: tab where
  "tab_other = \<lparr>tab_id = 9, tab_url = Some ''https://other.example/?ref=https://dapp.example''\<rparr>"

definition env1 :: env where
  "env1 = \<lparr>now = 1000, tabs = [tab_dapp], acked = (\<lambda>i. False), storage_set_ok = True\<rparr>"

definition env2 :: env where
  "env2 = env1\<lparr>tabs := [tab_dapp, tab_other]\<rparr>"

text \<open>The content scripts and providers of the two tabs, as they are after injection.\<close>

definition rs_dapp :: relay_state where
  "rs_dapp = \<lparr>location_origin = dapp, pendingRequestsMap = [], nextRequestId = 1,
              crossNetWalletState = None\<rparr>"

definition rs_other :: relay_state where
  "rs_other = rs_dapp\<lparr>location_origin := ''https://other.example''\<rparr>"

definition p_init :: provider where
  "p_init = \<lparr>isConnected = False, p_accounts = [], p_chainId = None, selectedAddress = None,
             networkVersion = None, connected = False, chainSwitchInProgress = False,
             awaiting = []\<rparr>"

text \<open>A decision message of the popup, and pending requests of \<open>dapp\<close> with request id 1.\<close>

definition decision :: "string \<Rightarrow> nat \<Rightarrow> bool \<Rightarrow> message" where
  "decision t n approved =
     \<lparr>m_type = t, m_requestId = Some (NumId n), m_approved = approved, m_accounts = None,
      m_origin = None, m_chainId = None, m_switchToChain = False, m_txHash = None,
      m_signature = None, m_data = None\<rparr>"

definition pending_connect :: pending_request where
  "pending_connect = new_pending (Some (NumId 1)) ''connect'' (Some dapp) 900"

definition pending_switch :: pending_request where
  "pending_switch =
     (new_pending (Some (NumId 1)) ''switchChain'' (Some dapp) 900)\<lparr>pr_chainId := Some ''0x1''\<rparr>"

definition pending_tx :: pending_request where
  "pending_tx =
     (new_pending (Some (NumId 1)) ''transaction'' (Some dapp) 900)
       \<lparr>pr_transaction := Some \<lparr>tx_to = Some ''0xdef'', tx_data = None,
                                tx_value = Some ''0x38D7EA4C68000''\<rparr>,
        pr_chainId := Some ''0x89''\<rparr>"

text \<open>
  The tab of \<open>dapp\<close> while the page request \<open>req-1\<close> waits for the decision on request 1.
\<close>

definition rs_waiting :: relay_state where
  "rs_waiting = rs_dapp\<lparr>pendingRequestsMap := [(NumId 1, ''req-1'')], nextRequestId := 2\<rparr>"

definition p_connected :: provider where
  "p_connected = p_init\<lparr>isConnected := True, p_accounts := [alice], p_chainId := Some ''0x89'',
                        selectedAddress := Some alice, networkVersion := Some ''137'',
                        connected := True\<rparr>"

text \<open>A message without request id (\<^verbatim>\<open>LOGOUT\<close>, \<^verbatim>\<open>CHAIN_CHANGED\<close>), and the effects of a dispatch.\<close>

definition notice :: "string \<Rightarrow> string option \<Rightarrow> message" where
  "notice t chainId =
     \<lparr>m_type = t, m_requestId = None, m_approved = False, m_accounts = None,
      m_origin = None, m_chainId = chainId, m_switchToChain = False, m_txHash = None,
      m_signature = None, m_data = None\<rparr>"

definition effects_of ::
  "(listener_return list \<times> bg_state \<times> storage \<times> effect list) option \<Rightarrow> effect list" where
  "effects_of r = (case r of None \<Rightarrow> [] | Some (rets, st, store, effs) \<Rightarrow> effs)"

definition state_of ::
  "(listener_return list \<times> bg_state \<times> storage \<times> effect list) option \<Rightarrow> bg_state option" where
  "state_of r = (case r of None \<Rightarrow> None | Some (rets, st, store, effs) \<Rightarrow> Some st)"


section \<open>Properties of the event emitter\<close>




lemma on_appends_listener:
  "name \<notin> set object_prototype_members \<Longrightarrow>
   \<exists>events'. on name l events = Inr events' \<and>
     map_of events' name = Some ((case map_of events name of None \<Rightarrow> [] | Some ls \<Rightarrow> ls) @ [l])"
  by (cases "map_of events name") (simp_all add: on_def get_property_def update_conv' map_add_def)




section \<open>Requests whose handler is not declared\<close>

lemma undeclared_call:
  "global_function name = None \<Longrightarrow>
   request keep (invoke name e msg st store) = (Threw (ReferenceError name), st, store, [])"
  by (simp add: invoke_def request_def)

lemma undeclared_names:
  "global_function ''handleGetAccountsRequest'' = None"
  "global_function ''handleGetChainIdRequest'' = None"
  "global_function ''handleGetBalanceRequest'' = None"
  "global_function ''handleSignTransactionRequest'' = None"
  "global_function ''handleEthSignRequest'' = None"
  "global_function ''handleTypedSignRequest'' = None"
  "global_function ''handleWatchAssetRequest'' = None"
  by (simp_all add: global_function_def)

lemma onMessage2_other:
  "m_type msg \<noteq> ''APPROVE_SWITCH_CHAIN'' \<Longrightarrow> m_type msg \<noteq> ''APPROVE_ADD_CHAIN'' \<Longrightarrow>
   m_type msg \<noteq> ''APPROVE_SIGN'' \<Longrightarrow> onMessage2 e msg st store = (Returned False, st, store, [])"
  by (simp add: onMessage2_def)

lemma get_accounts_throws:
  "m_type msg = ''GET_ACCOUNTS_REQUEST'' \<Longrightarrow>
   dispatch e msg st store =
     Some ([Threw (ReferenceError ''handleGetAccountsRequest''), Returned False], st, store, [])"
  by (simp add: dispatch_def onMessage1_def onMessage2_other undeclared_call undeclared_names)

lemma get_chainid_throws:
  "m_type msg = ''GET_CHAINID_REQUEST'' \<Longrightarrow>
   dispatch e msg st store =
     Some ([Threw (ReferenceError ''handleGetChainIdRequest''), Returned False], st, store, [])"
  by (simp add: dispatch_def onMessage1_def onMessage2_other undeclared_call undeclared_names)

lemma get_balance_throws:
  "m_type msg = ''GET_BALANCE_REQUEST'' \<Longrightarrow>
   dispatch e msg st store =
     Some ([Threw (ReferenceError ''handleGetBalanceRequest''), Returned False], st, store, [])"
  by (simp add: dispatch_def onMessage1_def onMessage2_other undeclared_call undeclared_names)

lemma sign_transaction_throws:
  "m_type msg = ''SIGN_TRANSACTION_REQUEST'' \<Longrightarrow>
   dispatch e msg st store =
     Some ([Threw (ReferenceError ''handleSignTransactionRequest''), Returned False], st, store, [])"
  by (simp add: dispatch_def onMessage1_def onMessage2_other undeclared_call undeclared_names)

lemma eth_sign_throws:
  "m_type msg = ''ETH_SIGN_REQUEST'' \<Longrightarrow>
   dispatch e msg st store =
     Some ([Threw (ReferenceError ''handleEthSignRequest''), Returned False], st, store, [])"
  by (simp add: dispatch_def onMessage1_def onMessage2_other undeclared_call undeclared_names)

lemma typed_sign_throws:
  "m_type msg = ''TYPED_SIGN_REQUEST'' \<Longrightarrow>
   dispatch e msg st store =
     Some ([Threw (ReferenceError ''handleTypedSignRequest''), Returned False], st, store, [])"
  by (simp add: dispatch_def onMessage1_def onMessage2_other undeclared_call undeclared_names)

lemma watch_asset_throws:
  "m_type msg = ''WATCH_ASSET_REQUEST'' \<Longrightarrow>
   dispatch e msg st store =
     Some ([Threw (ReferenceError ''handleWatchAssetRequest''), Returned False], st, store, [])"
  by (simp add: dispatch_def onMessage1_def onMessage2_other undeclared_call undeclared_names)

lemma no_reply_accounts:
  "bg_reply e st store (relay_message rs EthAccounts) = None"
  by (simp add: bg_reply_def get_accounts_throws bgmsg_def)

lemma no_reply_chainid:
  "bg_reply e st store (relay_message rs EthChainId) = None"
  by (simp add: bg_reply_def get_chainid_throws bgmsg_def)

lemma no_reply_balance:
  "bg_reply e st store (relay_message rs (EthGetBalance a b)) = None"
  by (simp add: bg_reply_def get_balance_throws bgmsg_def)

lemma no_reply_eth_sign:
  "bg_reply e st store (relay_message rs (EthSign a d)) = None"
  by (simp add: bg_reply_def eth_sign_throws bgmsg_def)

lemma no_reply_typed_sign:
  "bg_reply e st store (relay_message rs (EthSignTypedDataV4 a d)) = None"
  by (simp add: bg_reply_def typed_sign_throws bgmsg_def)

lemma timeout_code: "error_code_for ''Response timeout'' = - 32603"
  by (simp add: error_code_for_def)

lemma balance_timeout_code: "error_code_for ''Get balance request timed out'' = - 32603"
  by (simp add: error_code_for_def)

text \<open>
  C9. A message of type \<^verbatim>\<open>GET_ACCOUNTS_REQUEST\<close>, \<^verbatim>\<open>GET_CHAINID_REQUEST\<close>,
  \<^verbatim>\<open>GET_BALANCE_REQUEST\<close>, \<^verbatim>\<open>SIGN_TRANSACTION_REQUEST\<close>, \<^verbatim>\<open>ETH_SIGN_REQUEST\<close>,
  \<^verbatim>\<open>TYPED_SIGN_REQUEST\<close> or \<^verbatim>\<open>WATCH_ASSET_REQUEST\<close> makes the first listener call a function
  that the background script does not declare: the listener throws a
  \<^verbatim>\<open>ReferenceError\<close>, nothing is sent (in particular no \<^verbatim>\<open>sendResponse\<close>) and state and
  storage are unchanged. The content script's handler for such a message gets no reply
  and completes by its fallback (an empty account list) or by a timeout error.
\<close>

theorem undeclared_handlers_throw:
  "(m_type msg = ''GET_ACCOUNTS_REQUEST'' \<longrightarrow>
      dispatch e msg st store =
        Some ([Threw (ReferenceError ''handleGetAccountsRequest''), Returned False], st, store, []))
   \<and> (m_type msg = ''GET_CHAINID_REQUEST'' \<longrightarrow>
      dispatch e msg st store =
        Some ([Threw (ReferenceError ''handleGetChainIdRequest''), Returned False], st, store, []))
   \<and> (m_type msg = ''GET_BALANCE_REQUEST'' \<longrightarrow>
      dispatch e msg st store =
        Some ([Threw (ReferenceError ''handleGetBalanceRequest''), Returned False], st, store, []))
   \<and> (m_type msg = ''SIGN_TRANSACTION_REQUEST'' \<longrightarrow>
      dispatch e msg st store =
        Some ([Threw (ReferenceError ''handleSignTransactionRequest''), Returned False], st, store, []))
   \<and> (m_type msg = ''ETH_SIGN_REQUEST'' \<longrightarrow>
      dispatch e msg st store =
        Some ([Threw (ReferenceError ''handleEthSignRequest''), Returned False], st, store, []))
   \<and> (m_type msg = ''TYPED_SIGN_REQUEST'' \<longrightarrow>
      dispatch e msg st store =
        Some ([Threw (ReferenceError ''handleTypedSignRequest''), Returned False], st, store, []))
   \<and> (m_type msg = ''WATCH_ASSET_REQUEST'' \<longrightarrow>
      dispatch e msg st store =
        Some ([Threw (ReferenceError ''handleWatchAssetRequest''), Returned False], st, store, []))
   \<and> (m_type msg \<in> set [''GET_ACCOUNTS_REQUEST'', ''GET_CHAINID_REQUEST'', ''GET_BALANCE_REQUEST'',
         ''SIGN_TRANSACTION_REQUEST'', ''ETH_SIGN_REQUEST'', ''TYPED_SIGN_REQUEST'',
         ''WATCH_ASSET_REQUEST''] \<longrightarrow> bg_reply e st store msg = None)
   \<and> relay_request (bg_reply e st store) pid EthAccounts rs =
       ([CrossnetResult pid (VAccounts [])], rs\<lparr>nextRequestId := nextRequestId rs + 1\<rparr>)
   \<and> relay_request (bg_reply e st store) pid EthChainId rs =
       ([CrossnetError pid (RpcError (- 32603) ''Response timeout'')],
        rs\<lparr>nextRequestId := nextRequestId rs + 1\<rparr>)
   \<and> relay_request (bg_reply e st store) pid (EthGetBalance a b) rs =
       ([CrossnetError pid (RpcError (- 32603) ''Get balance request timed out'')],
        rs\<lparr>nextRequestId := nextRequestId rs + 1\<rparr>)
   \<and> relay_request (bg_reply e st store) pid (EthSign a d) rs =
       ([CrossnetError pid (RpcError (- 32603) ''Response timeout'')],
        rs\<lparr>nextRequestId := nextRequestId rs + 1\<rparr>)
   \<and> relay_request (bg_reply e st store) pid (EthSignTypedDataV4 a d) rs =
       ([CrossnetError pid (RpcError (- 32603) ''Response timeout'')],
        rs\<lparr>nextRequestId := nextRequestId rs + 1\<rparr>)"
proof -
  have bg: "m_type msg \<in> set [''GET_ACCOUNTS_REQUEST'', ''GET_CHAINID_REQUEST'',
         ''GET_BALANCE_REQUEST'', ''SIGN_TRANSACTION_REQUEST'', ''ETH_SIGN_REQUEST'',
         ''TYPED_SIGN_REQUEST'', ''WATCH_ASSET_REQUEST''] \<longrightarrow> bg_reply e st store msg = None"
    using get_accounts_throws [of msg e st store] get_chainid_throws [of msg e st store]
      get_balance_throws [of msg e st store] sign_transaction_throws [of msg e st store]
      eth_sign_throws [of msg e st store] typed_sign_throws [of msg e st store]
      watch_asset_throws [of msg e st store]
    by (auto simp add: bg_reply_def)
  have r1: "relay_request (bg_reply e st store) pid EthAccounts rs =
       ([CrossnetResult pid (VAccounts [])], rs\<lparr>nextRequestId := nextRequestId rs + 1\<rparr>)"
    by (simp add: relay_request_def no_reply_accounts del: relay_message.simps)
  have r2: "relay_request (bg_reply e st store) pid EthChainId rs =
       ([CrossnetError pid (RpcError (- 32603) ''Response timeout'')],
        rs\<lparr>nextRequestId := nextRequestId rs + 1\<rparr>)"
    by (simp add: relay_request_def no_reply_chainid timeout_code del: relay_message.simps)
  have r3: "relay_request (bg_reply e st store) pid (EthGetBalance a b) rs =
       ([CrossnetError pid (RpcError (- 32603) ''Get balance request timed out'')],
        rs\<lparr>nextRequestId := nextRequestId rs + 1\<rparr>)"
    by (simp add: relay_request_def no_reply_balance balance_timeout_code del: relay_message.simps)
  have r4: "relay_request (bg_reply e st store) pid (EthSign a d) rs =
       ([CrossnetError pid (RpcError (- 32603) ''Response timeout'')],
        rs\<lparr>nextRequestId := nextRequestId rs + 1\<rparr>)"
    by (simp add: relay_request_def no_reply_eth_sign timeout_code del: relay_message.simps)
  have r5: "relay_request (bg_reply e st store) pid (EthSignTypedDataV4 a d) rs =
       ([CrossnetError pid (RpcError (- 32603) ''Response timeout'')],
        rs\<lparr>nextRequestId := nextRequestId rs + 1\<rparr>)"
    by (simp add: relay_request_def no_reply_typed_sign timeout_code del: relay_message.simps)
  show ?thesis
    using bg r1 r2 r3 r4 r5 get_accounts_throws [of msg e st store]
      get_chainid_throws [of msg e st store] get_balance_throws [of msg e st store]
      sign_transaction_throws [of msg e st store] eth_sign_throws [of msg e st store]
      typed_sign_throws [of msg e st store] watch_asset_throws [of msg e st store]
    by blast
qed

text \<open>
  On a wallet with a connected site, each of the seven messages is answered by an
  exception and no reply; five of them are the messages the content script sends for
  \<^verbatim>\<open>eth_accounts\<close>, \<^verbatim>\<open>eth_chainId\<close>, \<^verbatim>\<open>eth_getBalance\<close>, \<^verbatim>\<open>eth_sign\<close> and
  \<^verbatim>\<open>eth_signTypedData_v4\<close>.
\<close>

theorem undeclared_handlers_throw_witness:
  "dispatch env1 (relay_message rs_dapp EthAccounts) st_connected store_empty =
       Some ([Threw (ReferenceError ''handleGetAccountsRequest''), Returned False],
             st_connected, store_empty, [])
   \<and> bg_reply env1 st_connected store_empty (relay_message rs_dapp EthAccounts) = None
   \<and> dispatch env1 (relay_message rs_dapp EthChainId) st_connected store_empty =
       Some ([Threw (ReferenceError ''handleGetChainIdRequest''), Returned False],
             st_connected, store_empty, [])
   \<and> dispatch env1 (relay_message rs_dapp (EthGetBalance (Some alice) None)) st_connected store_empty =
       Some ([Threw (ReferenceError ''handleGetBalanceRequest''), Returned False],
             st_connected, store_empty, [])
   \<and> dispatch env1 (notice ''SIGN_TRANSACTION_REQUEST'' None) st_connected store_empty =
       Some ([Threw (ReferenceError ''handleSignTransactionRequest''), Returned False],
             st_connected, store_empty, [])
   \<and> dispatch env1 (relay_message rs_dapp (EthSign (Some alice) (Some ''0x68656c6c6f'')))
         st_connected store_empty =
       Some ([Threw (ReferenceError ''handleEthSignRequest''), Returned False],
             st_connected, store_empty, [])
   \<and> dispatch env1 (relay_message rs_dapp (EthSignTypedDataV4 (Some alice) (Some ''{}'')))
         st_connected store_empty =
       Some ([Threw (ReferenceError ''handleTypedSignRequest''), Returned False],
             st_connected, store_empty, [])
   \<and> dispatch env1 (notice ''WATCH_ASSET_REQUEST'' None) st_connected store_empty =
       Some ([Threw (ReferenceError ''handleWatchAssetRequest''), Returned False],
             st_connected, store_empty, [])"
proof -
  have t1: "m_type (relay_message rs_dapp EthAccounts) = ''GET_ACCOUNTS_REQUEST''"
    by (simp add: bgmsg_def)
  then have mem: "m_type (relay_message rs_dapp EthAccounts) \<in>
      set [''GET_ACCOUNTS_REQUEST'', ''GET_CHAINID_REQUEST'', ''GET_BALANCE_REQUEST'',
           ''SIGN_TRANSACTION_REQUEST'', ''ETH_SIGN_REQUEST'', ''TYPED_SIGN_REQUEST'',
           ''WATCH_ASSET_REQUEST'']"
    by simp
  have t2: "m_type (relay_message rs_dapp EthChainId) = ''GET_CHAINID_REQUEST''"
    by (simp add: bgmsg_def)
  have t3: "m_type (relay_message rs_dapp (EthGetBalance (Some alice) None)) = ''GET_BALANCE_REQUEST''"
    by (simp add: bgmsg_def)
  have t4: "m_type (notice ''SIGN_TRANSACTION_REQUEST'' None) = ''SIGN_TRANSACTION_REQUEST''"
    by (simp add: notice_def)
  have t5: "m_type (relay_message rs_dapp (EthSign (Some alice) (Some ''0x68656c6c6f'')))
              = ''ETH_SIGN_REQUEST''"
    by (simp add: bgmsg_def)
  have t6: "m_type (relay_message rs_dapp (EthSignTypedDataV4 (Some alice) (Some ''{}'')))
              = ''TYPED_SIGN_REQUEST''"
    by (simp add: bgmsg_def)
  have t7: "m_type (notice ''WATCH_ASSET_REQUEST'' None) = ''WATCH_ASSET_REQUEST''"
    by (simp add: notice_def)
  from undeclared_handlers_throw
         [of "relay_message rs_dapp EthAccounts" env1 st_connected store_empty] t1 mem
  have c1: "dispatch env1 (relay_message rs_dapp EthAccounts) st_connected store_empty =
       Some ([Threw (ReferenceError ''handleGetAccountsRequest''), Returned False],
             st_connected, store_empty, [])
     \<and> bg_reply env1 st_connected store_empty (relay_message rs_dapp EthAccounts) = None"
    by blast
  from undeclared_handlers_throw
         [of "relay_message rs_dapp EthChainId" env1 st_connected store_empty] t2
  have c2: "dispatch env1 (relay_message rs_dapp EthChainId) st_connected store_empty =
       Some ([Threw (ReferenceError ''handleGetChainIdRequest''), Returned False],
             st_connected, store_empty, [])"
    by blast
  from undeclared_handlers_throw
         [of "relay_message rs_dapp (EthGetBalance (Some alice) None)" env1 st_connected store_empty] t3
  have c3: "dispatch env1 (relay_message rs_dapp (EthGetBalance (Some alice) None)) st_connected store_empty =
       Some ([Threw (ReferenceError ''handleGetBalanceRequest''), Returned False],
             st_connected, store_empty, [])"
    by blast
  from undeclared_handlers_throw
         [of "notice ''SIGN_TRANSACTION_REQUEST'' None" env1 st_connected store_empty] t4
  have c4: "dispatch env1 (notice ''SIGN_TRANSACTION_REQUEST'' None) st_connected store_empty =
       Some ([Threw (ReferenceError ''handleSignTransactionRequest''), Returned False],
             st_connected, store_empty, [])"
    by blast
  from undeclared_handlers_throw
         [of "relay_message rs_dapp (EthSign (Some alice) (Some ''0x68656c6c6f''))" env1
             st_connected store_empty] t5
  have c5: "dispatch env1 (relay_message rs_dapp (EthSign (Some alice) (Some ''0x68656c6c6f'')))
         st_connected store_empty =
       Some ([Threw (ReferenceError ''handleEthSignRequest''), Returned False],
             st_connected, store_empty, [])"
    by blast
  from undeclared_handlers_throw
         [of "relay_message rs_dapp (EthSignTypedDataV4 (Some alice) (Some ''{}''))" env1
             st_connected store_empty] t6
  have c6: "dispatch env1 (relay_message rs_dapp (EthSignTypedDataV4 (Some alice) (Some ''{}'')))
         st_connected store_empty =
       Some ([Threw (ReferenceError ''handleTypedSignRequest''), Returned False],
             st_connected, store_empty, [])"
    by blast
  from undeclared_handlers_throw
         [of "notice ''WATCH_ASSET_REQUEST'' None" env1 st_connected store_empty] t7
  have c7: "dispatch env1 (notice ''WATCH_ASSET_REQUEST'' None) st_connected store_empty =
       Some ([Threw (ReferenceError ''handleWatchAssetRequest''), Returned False],
             st_connected, store_empty, [])"
    by blast
  from c1 c2 c3 c4 c5 c6 c7 show ?thesis by blast
qed

section \<open>Requests of a site that is not connected\<close>

lemma send_transaction_unconnected:
  "m_type msg = ''SEND_TRANSACTION_REQUEST'' \<Longrightarrow> m_data msg = Some d \<Longrightarrow>
   \<not> site_is_connected st (d_origin d) \<Longrightarrow>
   dispatch e msg st store =
     Some ([Returned True, Returned False], st, store,
           [SendResponse (RespError (RpcError 4100 ''Site not connected''))])"
  by (simp add: dispatch_def onMessage1_def onMessage2_other invoke_def global_function_def
        request_def handleSendTransactionRequest_def)

lemma add_chain_unconnected:
  "m_type msg = ''ADD_CHAIN_REQUEST'' \<Longrightarrow> m_data msg = Some d \<Longrightarrow>
   \<not> site_is_connected st (d_origin d) \<Longrightarrow>
   dispatch e msg st store =
     Some ([Returned True, Returned False], st, store,
           [SendResponse (RespError (RpcError 4100 ''Site not connected''))])"
  by (simp add: dispatch_def onMessage1_def onMessage2_other invoke_def global_function_def
        request_def handleAddChainRequest_def)

lemma personal_sign_unconnected:
  "m_type msg = ''PERSONAL_SIGN_REQUEST'' \<Longrightarrow> m_data msg = Some d \<Longrightarrow>
   \<not> site_is_connected st (d_origin d) \<Longrightarrow>
   dispatch e msg st store =
     Some ([Returned True, Returned False], st, store,
           [SendResponse (RespError (RpcError 4100 ''Site not connected''))])"
  by (auto simp add: dispatch_def onMessage1_def onMessage2_other invoke_def global_function_def
        request_def handlePersonalSignRequest_def site_is_connected_def split: option.splits)

lemma switch_chain_unconnected:
  "m_type msg = ''SWITCH_CHAIN_REQUEST'' \<Longrightarrow> m_data msg = Some d \<Longrightarrow>
   \<not> site_is_connected st (d_origin d) \<Longrightarrow>
   dispatch e msg st store =
     Some ([Returned True, Returned False], st, store,
           [SendResponse (RespErrorStr ''Site not connected'')])"
  by (simp add: dispatch_def onMessage1_def onMessage2_other invoke_def global_function_def
        request_def handleSwitchChainRequest_def)

text \<open>
  C2 (the code departs from the claim). A \<^verbatim>\<open>SWITCH_CHAIN_REQUEST\<close> of a site without a
  session is answered with the bare string \<^verbatim>\<open>'Site not connected'\<close>: the reply carries
  no error code, where the sibling handlers answer \<^verbatim>\<open>{code: 4100, ...}\<close>. An
  \<^verbatim>\<open>ETH_SIGN_REQUEST\<close> or \<^verbatim>\<open>TYPED_SIGN_REQUEST\<close> of such a site is not answered at all,
  because its handler is not declared. In all three cases no pending request is stored
  and no popup is opened.
\<close>

theorem switch_chain_unconnected_reply_has_no_code:
  "dispatch env1 (relay_message rs_dapp (WalletSwitchEthereumChain (Some ''0x1''))) st_fresh store_empty
     = Some ([Returned True, Returned False], st_fresh, store_empty,
             [SendResponse (RespErrorStr ''Site not connected'')])
   \<and> dispatch env1 (relay_message rs_dapp (EthSign (Some alice) (Some ''0x68656c6c6f''))) st_fresh store_empty
     = Some ([Threw (ReferenceError ''handleEthSignRequest''), Returned False],
             st_fresh, store_empty, [])
   \<and> dispatch env1 (relay_message rs_dapp (EthSignTypedDataV4 (Some alice) (Some ''{}''))) st_fresh store_empty
     = Some ([Threw (ReferenceError ''handleTypedSignRequest''), Returned False],
             st_fresh, store_empty, [])
   \<and> dispatch env1 (relay_message rs_dapp (EthSendTransaction
        (TxObject \<lparr>tx_to = Some ''0xdef'', tx_data = None, tx_value = Some ''0x38D7EA4C68000''\<rparr>)))
        st_fresh store_empty
     = Some ([Returned True, Returned False], st_fresh, store_empty,
             [SendResponse (RespError (RpcError 4100 ''Site not connected''))])"
proof -
  have nc: "\<not> site_is_connected st_fresh (Some (location_origin rs_dapp))"
    by (simp add: site_is_connected_def st_fresh_def)
  have a: "dispatch env1 (relay_message rs_dapp (WalletSwitchEthereumChain (Some ''0x1''))) st_fresh store_empty
     = Some ([Returned True, Returned False], st_fresh, store_empty,
             [SendResponse (RespErrorStr ''Site not connected'')])"
    by (rule switch_chain_unconnected
          [where d = "(data_of (nextRequestId rs_dapp) (Some (location_origin rs_dapp)))\<lparr>d_chainId := Some ''0x1''\<rparr>"])
       (simp_all add: bgmsg_def data_of_def nc)
  have b: "dispatch env1 (relay_message rs_dapp (EthSign (Some alice) (Some ''0x68656c6c6f''))) st_fresh store_empty
     = Some ([Threw (ReferenceError ''handleEthSignRequest''), Returned False],
             st_fresh, store_empty, [])"
    by (rule eth_sign_throws) (simp add: bgmsg_def)
  have c: "dispatch env1 (relay_message rs_dapp (EthSignTypedDataV4 (Some alice) (Some ''{}''))) st_fresh store_empty
     = Some ([Threw (ReferenceError ''handleTypedSignRequest''), Returned False],
             st_fresh, store_empty, [])"
    by (rule typed_sign_throws) (simp add: bgmsg_def)
  have d: "dispatch env1 (relay_message rs_dapp (EthSendTransaction
        (TxObject \<lparr>tx_to = Some ''0xdef'', tx_data = None, tx_value = Some ''0x38D7EA4C68000''\<rparr>)))
        st_fresh store_empty
     = Some ([Returned True, Returned False], st_fresh, store_empty,
             [SendResponse (RespError (RpcError 4100 ''Site not connected''))])"
    by (rule send_transaction_unconnected
          [where d = "(data_of (nextRequestId rs_dapp) (Some (location_origin rs_dapp)))
                        \<lparr>d_transaction := TxObject \<lparr>tx_to = Some ''0xdef'', tx_data = None, tx_value = Some ''0x38D7EA4C68000''\<rparr>\<rparr>"])
       (simp_all add: bgmsg_def data_of_def nc)
  from a b c d show ?thesis by blast
qed

section \<open>Decisions without a matching pending request\<close>

lemma onMessage1_other:
  "m_type msg = ''APPROVE_SWITCH_CHAIN'' \<or> m_type msg = ''APPROVE_ADD_CHAIN'' \<or>
   m_type msg = ''APPROVE_SIGN'' \<Longrightarrow>
   onMessage1 e msg st store = Embedded (Returned False, st, store, [])"
  by (auto simp add: onMessage1_def)

lemma connect_decision_unmatched:
  "m_type msg = ''APPROVE_CONNECT'' \<Longrightarrow>
   \<forall>pr. pendingConnectRequest store = Some pr \<longrightarrow> pr_id pr \<noteq> m_requestId msg \<Longrightarrow>
   \<exists>note. dispatch e msg st store =
     Some ([Returned False, Returned False], st, store, [SendResponse RespSuccess, ConsoleError note])"
  by (cases "pendingConnectRequest store")
     (simp_all add: dispatch_def onMessage1_def onMessage2_other decided_def handleConnectResponse_def)

lemma transaction_decision_unmatched:
  "m_type msg = ''APPROVE_TRANSACTION'' \<Longrightarrow>
   \<forall>pr. pendingTransactionRequest store = Some pr \<longrightarrow> pr_id pr \<noteq> m_requestId msg \<Longrightarrow>
   \<exists>note. dispatch e msg st store =
     Some ([Returned False, Returned False], st, store, [SendResponse RespSuccess, ConsoleError note])"
  by (cases "pendingTransactionRequest store")
     (simp_all add: dispatch_def onMessage1_def onMessage2_other decided_def
        handleTransactionResponse_def)

lemma switch_decision_unmatched:
  "m_type msg = ''APPROVE_SWITCH_CHAIN'' \<Longrightarrow>
   \<forall>pr. pendingChainRequest store = Some pr \<longrightarrow> pr_id pr \<noteq> m_requestId msg \<Longrightarrow>
   \<exists>note. dispatch e msg st store =
     Some ([Returned False, Returned False], st, store, [SendResponse RespSuccess, ConsoleError note])"
  by (cases "pendingChainRequest store")
     (simp_all add: dispatch_def onMessage1_other onMessage2_def decided_def
        handleSwitchChainResponse_def)

lemma add_chain_decision_unmatched:
  "m_type msg = ''APPROVE_ADD_CHAIN'' \<Longrightarrow>
   \<forall>pr. pendingAddChainRequest store = Some pr \<longrightarrow> pr_id pr \<noteq> m_requestId msg \<Longrightarrow>
   \<exists>note. dispatch e msg st store =
     Some ([Returned False, Returned False], st, store, [SendResponse RespSuccess, ConsoleError note])"
  by (cases "pendingAddChainRequest store")
     (simp_all add: dispatch_def onMessage1_other onMessage2_def decided_def
        handleAddChainResponse_def)

lemma sign_decision_unmatched:
  "m_type msg = ''APPROVE_SIGN'' \<Longrightarrow>
   \<forall>pr. pendingSignRequest store = Some pr \<longrightarrow> pr_id pr \<noteq> m_requestId msg \<Longrightarrow>
   \<exists>note. dispatch e msg st store =
     Some ([Returned False, Returned False], st, store, [SendResponse RespSuccess, ConsoleError note])"
  by (cases "pendingSignRequest store")
     (simp_all add: dispatch_def onMessage1_other onMessage2_def decided_def
        handleSignResponse_def)

lemma switch_decision_approved:
  "m_type msg = ''APPROVE_SWITCH_CHAIN'' \<Longrightarrow> m_approved msg \<Longrightarrow>
   pendingChainRequest store = Some pr \<Longrightarrow> pr_id pr = m_requestId msg \<Longrightarrow>
   dispatch e msg st store =
     Some ([Returned False, Returned False],
           st\<lparr>selectedChainId := pr_chainId pr,
              connectedSites := set_site_chain (pr_origin pr) (pr_chainId pr) (connectedSites st)\<rparr>,
           store\<lparr>pendingChainRequest := None\<rparr>,
           SendResponse RespSuccess #
           to_matching_tabs e (pr_origin pr)
             [(tmsg ''SWITCH_CHAIN_RESPONSE'')
                \<lparr>tm_requestId := m_requestId msg, tm_approved := True, tm_chainId := pr_chainId pr\<rparr>,
              wallet_event ''chainChanged'' (EvChainId (pr_chainId pr))])"
  by (simp add: dispatch_def onMessage1_other onMessage2_def decided_def
        handleSwitchChainResponse_def)

text \<open>
  C8. A decision message (\<^verbatim>\<open>APPROVE_CONNECT\<close>, \<^verbatim>\<open>APPROVE_TRANSACTION\<close>,
  \<^verbatim>\<open>APPROVE_SWITCH_CHAIN\<close>, \<^verbatim>\<open>APPROVE_ADD_CHAIN\<close>, \<^verbatim>\<open>APPROVE_SIGN\<close>) whose request id
  matches no pending request, because the slot is empty or holds another id, changes
  neither the wallet state nor the storage and sends nothing to any tab: the popup is
  answered \<^verbatim>\<open>{success: true}\<close> and one line is written with \<^verbatim>\<open>console.error\<close>. In
  particular, when an approval of a pending chain switch is handled, the chain is
  selected and each matching tab is sent one response and one \<^verbatim>\<open>chainChanged\<close>; the
  same approval handled again afterwards has no matching request and does nothing.
\<close>

theorem unmatched_decision_is_noop:
  "((m_type msg = ''APPROVE_CONNECT'' \<and>
       (\<forall>pr. pendingConnectRequest store = Some pr \<longrightarrow> pr_id pr \<noteq> m_requestId msg))
     \<or> (m_type msg = ''APPROVE_TRANSACTION'' \<and>
       (\<forall>pr. pendingTransactionRequest store = Some pr \<longrightarrow> pr_id pr \<noteq> m_requestId msg))
     \<or> (m_type msg = ''APPROVE_SWITCH_CHAIN'' \<and>
       (\<forall>pr. pendingChainRequest store = Some pr \<longrightarrow> pr_id pr \<noteq> m_requestId msg))
     \<or> (m_type msg = ''APPROVE_ADD_CHAIN'' \<and>
       (\<forall>pr. pendingAddChainRequest store = Some pr \<longrightarrow> pr_id pr \<noteq> m_requestId msg))
     \<or> (m_type msg = ''APPROVE_SIGN'' \<and>
       (\<forall>pr. pendingSignRequest store = Some pr \<longrightarrow> pr_id pr \<noteq> m_requestId msg))
     \<longrightarrow> (\<exists>note. dispatch e msg st store =
            Some ([Returned False, Returned False], st, store,
                  [SendResponse RespSuccess, ConsoleError note])))
   \<and> (m_type msg = ''APPROVE_SWITCH_CHAIN'' \<and> m_approved msg \<and>
      pendingChainRequest store = Some pr \<and> pr_id pr = m_requestId msg
     \<longrightarrow> (\<exists>st1 store1.
           dispatch e msg st store =
             Some ([Returned False, Returned False], st1, store1,
                   SendResponse RespSuccess #
                   to_matching_tabs e (pr_origin pr)
                     [(tmsg ''SWITCH_CHAIN_RESPONSE'')
                        \<lparr>tm_requestId := m_requestId msg, tm_approved := True,
                         tm_chainId := pr_chainId pr\<rparr>,
                      wallet_event ''chainChanged'' (EvChainId (pr_chainId pr))])
           \<and> selectedChainId st1 = pr_chainId pr
           \<and> (\<exists>note. dispatch e' msg st1 store1 =
                Some ([Returned False, Returned False], st1, store1,
                      [SendResponse RespSuccess, ConsoleError note]))))"
proof (intro conjI impI)
  assume "(m_type msg = ''APPROVE_CONNECT'' \<and>
       (\<forall>pr. pendingConnectRequest store = Some pr \<longrightarrow> pr_id pr \<noteq> m_requestId msg))
     \<or> (m_type msg = ''APPROVE_TRANSACTION'' \<and>
       (\<forall>pr. pendingTransactionRequest store = Some pr \<longrightarrow> pr_id pr \<noteq> m_requestId msg))
     \<or> (m_type msg = ''APPROVE_SWITCH_CHAIN'' \<and>
       (\<forall>pr. pendingChainRequest store = Some pr \<longrightarrow> pr_id pr \<noteq> m_requestId msg))
     \<or> (m_type msg = ''APPROVE_ADD_CHAIN'' \<and>
       (\<forall>pr. pendingAddChainRequest store = Some pr \<longrightarrow> pr_id pr \<noteq> m_requestId msg))
     \<or> (m_type msg = ''APPROVE_SIGN'' \<and>
       (\<forall>pr. pendingSignRequest store = Some pr \<longrightarrow> pr_id pr \<noteq> m_requestId msg))"
  then show "\<exists>note. dispatch e msg st store =
            Some ([Returned False, Returned False], st, store,
                  [SendResponse RespSuccess, ConsoleError note])"
    using connect_decision_unmatched [of msg store e st]
      transaction_decision_unmatched [of msg store e st]
      switch_decision_unmatched [of msg store e st]
      add_chain_decision_unmatched [of msg store e st]
      sign_decision_unmatched [of msg store e st]
    by blast
next
  assume a: "m_type msg = ''APPROVE_SWITCH_CHAIN'' \<and> m_approved msg \<and>
      pendingChainRequest store = Some pr \<and> pr_id pr = m_requestId msg"
  let ?st1 = "st\<lparr>selectedChainId := pr_chainId pr,
              connectedSites := set_site_chain (pr_origin pr) (pr_chainId pr) (connectedSites st)\<rparr>"
  let ?store1 = "store\<lparr>pendingChainRequest := None\<rparr>"
  have first: "dispatch e msg st store =
     Some ([Returned False, Returned False], ?st1, ?store1,
           SendResponse RespSuccess #
           to_matching_tabs e (pr_origin pr)
             [(tmsg ''SWITCH_CHAIN_RESPONSE'')
                \<lparr>tm_requestId := m_requestId msg, tm_approved := True, tm_chainId := pr_chainId pr\<rparr>,
              wallet_event ''chainChanged'' (EvChainId (pr_chainId pr))])"
    using a switch_decision_approved [of msg store pr e st] by blast
  have "\<forall>q. pendingChainRequest ?store1 = Some q \<longrightarrow> pr_id q \<noteq> m_requestId msg"
    by simp
  with a have second: "\<exists>note. dispatch e' msg ?st1 ?store1 =
     Some ([Returned False, Returned False], ?st1, ?store1,
           [SendResponse RespSuccess, ConsoleError note])"
    using switch_decision_unmatched [of msg ?store1 e' ?st1] by blast
  have "selectedChainId ?st1 = pr_chainId pr" by simp
  with first second show "\<exists>st1 store1.
           dispatch e msg st store =
             Some ([Returned False, Returned False], st1, store1,
                   SendResponse RespSuccess #
                   to_matching_tabs e (pr_origin pr)
                     [(tmsg ''SWITCH_CHAIN_RESPONSE'')
                        \<lparr>tm_requestId := m_requestId msg, tm_approved := True,
                         tm_chainId := pr_chainId pr\<rparr>,
                      wallet_event ''chainChanged'' (EvChainId (pr_chainId pr))])
           \<and> selectedChainId st1 = pr_chainId pr
           \<and> (\<exists>note. dispatch e' msg st1 store1 =
                Some ([Returned False, Returned False], st1, store1,
                      [SendResponse RespSuccess, ConsoleError note]))"
    by blast
qed

text \<open>
  The approval of the pending chain switch of \<open>dapp\<close> is sent twice. The first selects
  chain \<^verbatim>\<open>0x1\<close>, clears the slot and sends the tab of \<open>dapp\<close> its response and one
  \<^verbatim>\<open>chainChanged\<close>; the second leaves everything as it is and sends no tab anything.
\<close>

theorem unmatched_decision_is_noop_witness:
  "\<exists>st1 note.
     dispatch env1 (decision ''APPROVE_SWITCH_CHAIN'' 1 True) st_connected
         (store_empty\<lparr>pendingChainRequest := Some pending_switch\<rparr>)
       = Some ([Returned False, Returned False], st1, store_empty,
               [SendResponse RespSuccess,
                TabsSendMessage 7
                  ((tmsg ''SWITCH_CHAIN_RESPONSE'')
                     \<lparr>tm_requestId := Some (NumId 1), tm_approved := True,
                      tm_chainId := Some ''0x1''\<rparr>),
                TabsSendMessage 7 (wallet_event ''chainChanged'' (EvChainId (Some ''0x1'')))])
     \<and> selectedChainId st1 = Some ''0x1''
     \<and> dispatch env1 (decision ''APPROVE_SWITCH_CHAIN'' 1 True) st1 store_empty
       = Some ([Returned False, Returned False], st1, store_empty,
               [SendResponse RespSuccess, ConsoleError note])
     \<and> (\<exists>note'. dispatch env1 (decision ''APPROVE_CONNECT'' 5 False) st_connected
                  (store_empty\<lparr>pendingConnectRequest := Some pending_connect\<rparr>)
       = Some ([Returned False, Returned False], st_connected,
               store_empty\<lparr>pendingConnectRequest := Some pending_connect\<rparr>,
               [SendResponse RespSuccess, ConsoleError note']))"
proof -
  let ?msgc = "decision ''APPROVE_CONNECT'' 5 False"
  let ?storec = "store_empty\<lparr>pendingConnectRequest := Some pending_connect\<rparr>"
  have "m_type ?msgc = ''APPROVE_CONNECT'' \<and>
        (\<forall>pr. pendingConnectRequest ?storec = Some pr \<longrightarrow> pr_id pr \<noteq> m_requestId ?msgc)"
    by (simp add: decision_def pending_connect_def new_pending_def)
  with unmatched_decision_is_noop
         [where msg = ?msgc and store = ?storec and e = env1 and st = st_connected]
  have other: "\<exists>note'. dispatch env1 ?msgc st_connected ?storec
       = Some ([Returned False, Returned False], st_connected, ?storec,
               [SendResponse RespSuccess, ConsoleError note'])"
    by blast
  let ?msg = "decision ''APPROVE_SWITCH_CHAIN'' 1 True"
  let ?store = "store_empty\<lparr>pendingChainRequest := Some pending_switch\<rparr>"
  have hyp: "m_type ?msg = ''APPROVE_SWITCH_CHAIN'' \<and> m_approved ?msg \<and>
      pendingChainRequest ?store = Some pending_switch \<and> pr_id pending_switch = m_requestId ?msg"
    by (simp add: decision_def pending_switch_def new_pending_def)
  have tabs: "to_matching_tabs env1 (pr_origin pending_switch)
       [(tmsg ''SWITCH_CHAIN_RESPONSE'')
          \<lparr>tm_requestId := m_requestId ?msg, tm_approved := True,
           tm_chainId := pr_chainId pending_switch\<rparr>,
        wallet_event ''chainChanged'' (EvChainId (pr_chainId pending_switch))]
     = [TabsSendMessage 7
          ((tmsg ''SWITCH_CHAIN_RESPONSE'')
             \<lparr>tm_requestId := Some (NumId 1), tm_approved := True, tm_chainId := Some ''0x1''\<rparr>),
        TabsSendMessage 7 (wallet_event ''chainChanged'' (EvChainId (Some ''0x1'')))]"
    by (simp add: to_matching_tabs_def env1_def tab_dapp_def tab_matches_def pending_switch_def
          new_pending_def dapp_def str_of_def decision_def)
  have cleared: "?store\<lparr>pendingChainRequest := None\<rparr> = store_empty"
    by (simp add: store_empty_def)
  from unmatched_decision_is_noop
         [where msg = ?msg and store = ?store and pr = pending_switch and e = env1
            and st = st_connected and e' = env1] hyp
  obtain st1 store1 where
    d1: "dispatch env1 ?msg st_connected ?store =
       Some ([Returned False, Returned False], st1, store1,
             SendResponse RespSuccess #
             to_matching_tabs env1 (pr_origin pending_switch)
               [(tmsg ''SWITCH_CHAIN_RESPONSE'')
                  \<lparr>tm_requestId := m_requestId ?msg, tm_approved := True,
                   tm_chainId := pr_chainId pending_switch\<rparr>,
                wallet_event ''chainChanged'' (EvChainId (pr_chainId pending_switch))])"
    and sel: "selectedChainId st1 = pr_chainId pending_switch"
    and d2: "\<exists>note. dispatch env1 ?msg st1 store1 =
       Some ([Returned False, Returned False], st1, store1,
             [SendResponse RespSuccess, ConsoleError note])"
    by blast
  from d1 switch_decision_approved [of ?msg ?store pending_switch env1 st_connected] hyp
  have "store1 = ?store\<lparr>pendingChainRequest := None\<rparr>" by simp
  with cleared have s1: "store1 = store_empty" by simp
  from sel have sel': "selectedChainId st1 = Some ''0x1''"
    by (simp add: pending_switch_def new_pending_def)
  from d1 d2 s1 sel' tabs other show ?thesis by auto
qed

section \<open>A rejection on its way to the page\<close>

lemma rejection_keeps_state:
  "handleTransactionResponse e rid False h st store = (ex, st', store', effs) \<Longrightarrow> st' = st"
  "handleSwitchChainResponse e rid False st store = (ex, st', store', effs) \<Longrightarrow> st' = st"
  "handleConnectResponse e rid False accs st store = (ex, st', store', effs) \<Longrightarrow> st' = st"
  "handleAddChainResponse e rid False sw st store = (ex, st', store', effs) \<Longrightarrow> st' = st"
  "handleSignResponse e rid False sg st store = (ex, st', store', effs) \<Longrightarrow> st' = st"
  by (auto simp add: handleTransactionResponse_def handleSwitchChainResponse_def
        handleConnectResponse_def handleAddChainResponse_def handleSignResponse_def
        split: option.splits if_splits)

text \<open>
  C3 (the code departs from the claim). The user rejects the pending transaction of
  \<open>dapp\<close>. The background script leaves the wallet state as it is and sends the tab a
  \<^verbatim>\<open>SEND_TRANSACTION_RESPONSE\<close> with the error \<^verbatim>\<open>{code: 4001, message: "User rejected the
  request."}\<close>. The content script rejects the waiting promise with that object, and its
  \<^verbatim>\<open>catch\<close> looks for \<^verbatim>\<open>user rejected\<close> in the message, which begins with a capital
  letter: the page's request is rejected with code \<open>-32603\<close>, not 4001. A rejected chain
  switch reaches the page as \<^verbatim>\<open>[object Object]\<close> with \<open>-32603\<close>, and a rejected
  connection does not reach the page, since the content script has no case for
  \<^verbatim>\<open>CONNECT_RESPONSE\<close>.
\<close>

theorem rejection_reaches_page_as_internal_error:
  "dispatch env1 (decision ''APPROVE_TRANSACTION'' 1 False) st_connected
       (store_empty\<lparr>pendingTransactionRequest := Some pending_tx\<rparr>)
     = Some ([Returned False, Returned False], st_connected, store_empty,
             [SendResponse RespSuccess,
              TabsSendMessage 7 (rejection ''SEND_TRANSACTION_RESPONSE'' (Some (NumId 1)))])
   \<and> tm_error (rejection ''SEND_TRANSACTION_RESPONSE'' (Some (NumId 1)))
     = Some (RpcError 4001 ''User rejected the request.'')
   \<and> tab_receive_all
       (messages_for 7 (effects_of
          (dispatch env1 (decision ''APPROVE_TRANSACTION'' 1 False) st_connected
             (store_empty\<lparr>pendingTransactionRequest := Some pending_tx\<rparr>))))
       (rs_waiting, p_connected\<lparr>awaiting := [(''req-1'', KResult)]\<rparr>)
     = ([(''req-1'', Rejects (PError (Some (- 32603)) ''User rejected the request.''))],
        (rs_dapp\<lparr>nextRequestId := 2\<rparr>, p_connected), [PConsoleError ''Request error''])
   \<and> tab_receive_all
       (messages_for 7 (effects_of
          (dispatch env1 (decision ''APPROVE_SWITCH_CHAIN'' 1 False) st_connected
             (store_empty\<lparr>pendingChainRequest := Some pending_switch\<rparr>))))
       (rs_waiting, p_connected\<lparr>chainSwitchInProgress := True,
                                awaiting := [(''req-1'', KSwitchChain (Some ''0x1''))]\<rparr>)
     = ([(''req-1'', Rejects (PError (Some (- 32603)) ''[object Object]''))],
        (rs_dapp\<lparr>nextRequestId := 2\<rparr>, p_connected), [PConsoleError ''Switch chain error''])
   \<and> tab_receive_all
       (messages_for 7 (effects_of
          (dispatch env1 (decision ''APPROVE_CONNECT'' 1 False) st_fresh
             (store_empty\<lparr>pendingConnectRequest := Some pending_connect\<rparr>))))
       (rs_waiting, p_init\<lparr>awaiting := [(''req-1'', KConnect)]\<rparr>)
     = ([], (rs_waiting, p_init\<lparr>awaiting := [(''req-1'', KConnect)]\<rparr>), [])"
proof -
  have a: "dispatch env1 (decision ''APPROVE_TRANSACTION'' 1 False) st_connected
       (store_empty\<lparr>pendingTransactionRequest := Some pending_tx\<rparr>)
     = Some ([Returned False, Returned False], st_connected, store_empty,
             [SendResponse RespSuccess,
              TabsSendMessage 7 (rejection ''SEND_TRANSACTION_RESPONSE'' (Some (NumId 1)))])"
    by code_simp
  have b: "tm_error (rejection ''SEND_TRANSACTION_RESPONSE'' (Some (NumId 1)))
     = Some (RpcError 4001 ''User rejected the request.'')"
    by (simp add: rejection_def user_rejected_def)
  have c: "tab_receive_all
       (messages_for 7 (effects_of
          (dispatch env1 (decision ''APPROVE_TRANSACTION'' 1 False) st_connected
             (store_empty\<lparr>pendingTransactionRequest := Some pending_tx\<rparr>))))
       (rs_waiting, p_connected\<lparr>awaiting := [(''req-1'', KResult)]\<rparr>)
     = ([(''req-1'', Rejects (PError (Some (- 32603)) ''User rejected the request.''))],
        (rs_dapp\<lparr>nextRequestId := 2\<rparr>, p_connected), [PConsoleError ''Request error''])"
    by code_simp
  have d: "tab_receive_all
       (messages_for 7 (effects_of
          (dispatch env1 (decision ''APPROVE_SWITCH_CHAIN'' 1 False) st_connected
             (store_empty\<lparr>pendingChainRequest := Some pending_switch\<rparr>))))
       (rs_waiting, p_connected\<lparr>chainSwitchInProgress := True,
                                awaiting := [(''req-1'', KSwitchChain (Some ''0x1''))]\<rparr>)
     = ([(''req-1'', Rejects (PError (Some (- 32603)) ''[object Object]''))],
        (rs_dapp\<lparr>nextRequestId := 2\<rparr>, p_connected), [PConsoleError ''Switch chain error''])"
    by code_simp
  have e: "tab_receive_all
       (messages_for 7 (effects_of
          (dispatch env1 (decision ''APPROVE_CONNECT'' 1 False) st_fresh
             (store_empty\<lparr>pendingConnectRequest := Some pending_connect\<rparr>))))
       (rs_waiting, p_init\<lparr>awaiting := [(''req-1'', KConnect)]\<rparr>)
     = ([], (rs_waiting, p_init\<lparr>awaiting := [(''req-1'', KConnect)]\<rparr>), [])"
    by code_simp
  from a b c d e show ?thesis by blast
qed

section \<open>An approved connection and the accounts read back\<close>

lemma approved_connect_records_site:
  "pendingConnectRequest store = Some pr \<Longrightarrow> pr_id pr = rid \<Longrightarrow> accs \<noteq> [] \<Longrightarrow>
   handleConnectResponse e rid True (Some accs) st store = (ex, st', store', effs) \<Longrightarrow>
   (\<exists>site. map_of (connectedSites st') (str_of (pr_origin pr)) = Some site \<and>
           site_connected site \<and> site_accounts site = accs)"
  by (auto simp add: handleConnectResponse_def accountsToUse_def Let_def update_conv')

text \<open>
  C4 (the code departs from the claim). The connection of \<open>dapp\<close> is approved: its site
  record is stored with \<^verbatim>\<open>connected: true\<close> and the wallet's account list (the listener
  hands \<^verbatim>\<open>{requestId, approved}\<close> to \<^verbatim>\<open>handleConnectResponse\<close>, so an account list in the
  decision message is not used). The page then
  calls \<^verbatim>\<open>eth_accounts\<close>. The content script sends \<^verbatim>\<open>GET_ACCOUNTS_REQUEST\<close>, whose handler
  the background script does not declare; no reply comes, neither from the listeners
  handed the message nor on the port, the content script falls back to the empty list,
  and the page receives \<open>[]\<close> instead of the granted accounts.
\<close>

theorem accounts_after_connect_are_empty:
  "dispatch env1 (decision ''APPROVE_CONNECT'' 1 True) st_fresh
       (store_empty\<lparr>pendingConnectRequest := Some pending_connect\<rparr>)
     = Some ([Returned False, Returned False],
             st_fresh\<lparr>connectedSites :=
               [(dapp, site_dapp\<lparr>site_lastConnected := 1000, site_timestamp := 1000\<rparr>)]\<rparr>,
             store_empty,
             [SendResponse RespSuccess,
              TabsSendMessage 7
                ((tmsg ''CONNECT_RESPONSE'')
                   \<lparr>tm_requestId := Some (NumId 1), tm_approved := True,
                    tm_accounts := Some [alice], tm_chainId := Some ''0x89''\<rparr>)])
   \<and> state_of (dispatch env1 ((decision ''APPROVE_CONNECT'' 1 True)\<lparr>m_accounts := Some [''0xb0b'']\<rparr>)
                 st_fresh (store_empty\<lparr>pendingConnectRequest := Some pending_connect\<rparr>))
     = Some (st_fresh\<lparr>connectedSites :=
               [(dapp, site_dapp\<lparr>site_lastConnected := 1000, site_timestamp := 1000\<rparr>)]\<rparr>)
   \<and> site_accounts (site_dapp\<lparr>site_lastConnected := 1000, site_timestamp := 1000\<rparr>) = [alice]
   \<and> site_connected (site_dapp\<lparr>site_lastConnected := 1000, site_timestamp := 1000\<rparr>)
   \<and> getAccounts_call ''req-2'' p_init
     = (Suspended, p_init\<lparr>awaiting := [(''req-2'', KGetAccounts)]\<rparr>,
        [PostRequest ''req-2'' EthAccounts])
   \<and> relay_request
       (bg_reply env1
          (st_fresh\<lparr>connectedSites :=
             [(dapp, site_dapp\<lparr>site_lastConnected := 1000, site_timestamp := 1000\<rparr>)]\<rparr>)
          store_empty)
       ''req-2'' EthAccounts rs_dapp
     = ([CrossnetResult ''req-2'' (VAccounts [])], rs_dapp\<lparr>nextRequestId := 2\<rparr>)
   \<and> round_trip 1000 background_port_posts ''req-2'' EthAccounts
       (rs_dapp, p_init\<lparr>awaiting := [(''req-2'', KGetAccounts)]\<rparr>)
     = ([(''req-2'', Resolves (PAccounts []))], (rs_dapp\<lparr>nextRequestId := 2\<rparr>, p_init), [])"
proof -
  have a: "dispatch env1 (decision ''APPROVE_CONNECT'' 1 True) st_fresh
       (store_empty\<lparr>pendingConnectRequest := Some pending_connect\<rparr>)
     = Some ([Returned False, Returned False],
             st_fresh\<lparr>connectedSites :=
               [(dapp, site_dapp\<lparr>site_lastConnected := 1000, site_timestamp := 1000\<rparr>)]\<rparr>,
             store_empty,
             [SendResponse RespSuccess,
              TabsSendMessage 7
                ((tmsg ''CONNECT_RESPONSE'')
                   \<lparr>tm_requestId := Some (NumId 1), tm_approved := True,
                    tm_accounts := Some [alice], tm_chainId := Some ''0x89''\<rparr>)])"
    by code_simp
  have a': "state_of (dispatch env1 ((decision ''APPROVE_CONNECT'' 1 True)\<lparr>m_accounts := Some [''0xb0b'']\<rparr>)
                 st_fresh (store_empty\<lparr>pendingConnectRequest := Some pending_connect\<rparr>))
     = Some (st_fresh\<lparr>connectedSites :=
               [(dapp, site_dapp\<lparr>site_lastConnected := 1000, site_timestamp := 1000\<rparr>)]\<rparr>)"
    by code_simp
  have b: "site_accounts (site_dapp\<lparr>site_lastConnected := 1000, site_timestamp := 1000\<rparr>) = [alice]"
    by (simp add: site_dapp_def)
  have c: "site_connected (site_dapp\<lparr>site_lastConnected := 1000, site_timestamp := 1000\<rparr>)"
    by (simp add: site_dapp_def)
  have d: "getAccounts_call ''req-2'' p_init
     = (Suspended, p_init\<lparr>awaiting := [(''req-2'', KGetAccounts)]\<rparr>,
        [PostRequest ''req-2'' EthAccounts])"
    by (simp add: getAccounts_call_def send_def p_init_def)
  have e: "relay_request
       (bg_reply env1
          (st_fresh\<lparr>connectedSites :=
             [(dapp, site_dapp\<lparr>site_lastConnected := 1000, site_timestamp := 1000\<rparr>)]\<rparr>)
          store_empty)
       ''req-2'' EthAccounts rs_dapp
     = ([CrossnetResult ''req-2'' (VAccounts [])], rs_dapp\<lparr>nextRequestId := 2\<rparr>)"
    by code_simp
  have f: "round_trip 1000 background_port_posts ''req-2'' EthAccounts
       (rs_dapp, p_init\<lparr>awaiting := [(''req-2'', KGetAccounts)]\<rparr>)
     = ([(''req-2'', Resolves (PAccounts []))], (rs_dapp\<lparr>nextRequestId := 2\<rparr>, p_init), [])"
    by code_simp
  from a a' b c d e f show ?thesis by blast
qed

section \<open>Events in a tab of another site\<close>

lemma notified_tabs_contain_origin:
  "TabsSendMessage i m \<in> set (notifyConnectedSite ts origin eventName eventData) \<Longrightarrow>
   \<exists>t \<in> set ts. tab_id t = i \<and> (\<exists>u. tab_url t = Some u \<and> js_includes u origin)"
  by (auto simp add: notifyConnectedSite_def tab_matches_def str_of_def split: option.splits)

text \<open>
  C1 (the code departs from the claim). \<open>dapp\<close> is the only connected site. A second tab
  shows a page of another origin whose URL contains the text of \<open>dapp\<close>'s origin in its
  query. On logout the background script notifies the tabs of \<open>dapp\<close>: it selects them
  with \<^verbatim>\<open>tab.url.includes(origin)\<close>, so the second tab is sent \<^verbatim>\<open>accountsChanged\<close> and
  \<^verbatim>\<open>disconnect\<close> too. Its content script forwards every \<^verbatim>\<open>WALLET_EVENT\<close> without a
  check, and the provider of that page emits both events.
\<close>

theorem event_reaches_page_of_other_origin:
  "map fst (connectedSites st_connected) = [dapp]
   \<and> tab_url tab_other = Some ''https://other.example/?ref=https://dapp.example''
   \<and> location_origin rs_other = ''https://other.example''
   \<and> location_origin rs_other \<noteq> dapp
   \<and> messages_for 9 (effects_of (dispatch env2 (notice ''LOGOUT'' None) st_connected store_empty))
     = [wallet_event ''accountsChanged'' (EvAccounts []),
        wallet_event ''disconnect'' (EvDisconnect 1000 ''User logged out of wallet'')]
   \<and> tab_receive_all
       (messages_for 9 (effects_of (dispatch env2 (notice ''LOGOUT'' None) st_connected store_empty)))
       (rs_other, p_init)
     = ([], (rs_other, p_init),
        [Emit ''accountsChanged'' (Some (EvAccounts [])),
         Emit ''disconnect'' (Some (EvDisconnect 1000 ''User logged out of wallet''))])
   \<and> tab_receive_all
       (messages_for 9
          (effects_of (dispatch env2 (notice ''CHAIN_CHANGED'' (Some ''0x1'')) st_connected store_empty)))
       (rs_other, p_init)
     = ([], (rs_other, p_init), [Emit ''chainChanged'' (Some (EvChainId (Some ''0x1'')))])"
proof -
  have a: "map fst (connectedSites st_connected) = [dapp]"
    by (simp add: st_connected_def st_fresh_def)
  have b: "tab_url tab_other = Some ''https://other.example/?ref=https://dapp.example''"
    by (simp add: tab_other_def)
  have c: "location_origin rs_other = ''https://other.example''"
    by (simp add: rs_other_def rs_dapp_def)
  have d: "location_origin rs_other \<noteq> dapp"
    by (simp add: rs_other_def rs_dapp_def dapp_def)
  have e: "messages_for 9 (effects_of (dispatch env2 (notice ''LOGOUT'' None) st_connected store_empty))
     = [wallet_event ''accountsChanged'' (EvAccounts []),
        wallet_event ''disconnect'' (EvDisconnect 1000 ''User logged out of wallet'')]"
    by code_simp
  have f: "tab_receive_all
       (messages_for 9 (effects_of (dispatch env2 (notice ''LOGOUT'' None) st_connected store_empty)))
       (rs_other, p_init)
     = ([], (rs_other, p_init),
        [Emit ''accountsChanged'' (Some (EvAccounts [])),
         Emit ''disconnect'' (Some (EvDisconnect 1000 ''User logged out of wallet''))])"
    by code_simp
  have g: "tab_receive_all
       (messages_for 9
          (effects_of (dispatch env2 (notice ''CHAIN_CHANGED'' (Some ''0x1'')) st_connected store_empty)))
       (rs_other, p_init)
     = ([], (rs_other, p_init), [Emit ''chainChanged'' (Some (EvChainId (Some ''0x1'')))])"
    by code_simp
  from a b c d e f g show ?thesis by blast
qed

section \<open>The events of a successful connection\<close>

text \<open>
  A response posted by the content script has no \<^verbatim>\<open>accounts\<close> property of its own (the
  accounts are inside \<^verbatim>\<open>result\<close>), so \<^verbatim>\<open>connect()\<close> then emits nothing and resolves with
  the accounts the provider already had.
\<close>

lemma connect_on_relay_response_emits_nothing:
  "from_relay m = Some d \<Longrightarrow>
   resume KConnect (Inr d) p = (Resolves (PAccounts (p_accounts p)), p, [])"
  by (cases m) auto

text \<open>
  Were a response to carry a non-empty \<^verbatim>\<open>accounts\<close> property, \<^verbatim>\<open>connect()\<close> would emit
  \<^verbatim>\<open>accountsChanged\<close> first and \<^verbatim>\<open>connect\<close> last, whether or not the accounts changed.
\<close>

lemma connect_emits_accounts_changed_first:
  "cr_accounts d = Some (a # accs) \<Longrightarrow>
   emitted (snd (snd (resume KConnect (Inr d) p)))
     = [(''accountsChanged'', Some (EvAccounts (a # accs))),
        (''chainChanged'', Some (EvChainId (cr_chainId d))),
        (''connect'', Some (EvConnect (cr_chainId d)))]"
  by simp

text \<open>The content script has no case for \<^verbatim>\<open>CONNECT_RESPONSE\<close>: the message is dropped.\<close>

lemma connect_response_is_dropped:
  "tm_type m = ''CONNECT_RESPONSE'' \<Longrightarrow> relay_onMessage m rs = (False, [], rs)"
  by (simp add: relay_onMessage_def)

text \<open>
  C5 (the code departs from the claim). The page of \<open>dapp\<close> has called
  \<^verbatim>\<open>eth_requestAccounts\<close> (page request \<open>req-1\<close>) and the user approves the pending
  connection. The background script records the site and sends \<^verbatim>\<open>CONNECT_RESPONSE\<close> to
  the tab; it would send \<^verbatim>\<open>connect\<close> and then \<^verbatim>\<open>accountsChanged\<close> to a tab that answers
  that message, but the content script drops it without an answer, whether or not it
  still holds the request. So the page emits neither \<^verbatim>\<open>connect\<close> nor
  \<^verbatim>\<open>accountsChanged\<close>, and its \<^verbatim>\<open>connect()\<close> is not completed by the approval. On the
  port the request is never answered: \<^verbatim>\<open>connect()\<close> rejects with \<^verbatim>\<open>Response timeout\<close>
  and emits nothing. And when the content script is handed the answer of a site that is
  already connected, \<^verbatim>\<open>{success: true, accounts, chainId}\<close>, it posts the accounts inside
  \<^verbatim>\<open>result\<close>, and \<^verbatim>\<open>connect()\<close> resolves with the empty list it had, again without any
  event.
\<close>

theorem successful_connect_emits_nothing:
  "dispatch env1 (decision ''APPROVE_CONNECT'' 1 True) st_fresh
       (store_empty\<lparr>pendingConnectRequest := Some pending_connect\<rparr>)
     = Some ([Returned False, Returned False],
             st_fresh\<lparr>connectedSites :=
               [(dapp, site_dapp\<lparr>site_lastConnected := 1000, site_timestamp := 1000\<rparr>)]\<rparr>,
             store_empty,
             [SendResponse RespSuccess,
              TabsSendMessage 7
                ((tmsg ''CONNECT_RESPONSE'')
                   \<lparr>tm_requestId := Some (NumId 1), tm_approved := True,
                    tm_accounts := Some [alice], tm_chainId := Some ''0x89''\<rparr>)])
   \<and> relay_onMessage
       ((tmsg ''CONNECT_RESPONSE'')
          \<lparr>tm_requestId := Some (NumId 1), tm_approved := True,
           tm_accounts := Some [alice], tm_chainId := Some ''0x89''\<rparr>) rs_waiting
     = (False, [], rs_waiting)
   \<and> tab_receive_all
       (messages_for 7 (effects_of
          (dispatch env1 (decision ''APPROVE_CONNECT'' 1 True) st_fresh
             (store_empty\<lparr>pendingConnectRequest := Some pending_connect\<rparr>))))
       (rs_waiting, p_init\<lparr>awaiting := [(''req-1'', KConnect)]\<rparr>)
     = ([], (rs_waiting, p_init\<lparr>awaiting := [(''req-1'', KConnect)]\<rparr>), [])
   \<and> tab_receive_all
       (messages_for 7 (effects_of
          (dispatch env1 (decision ''APPROVE_CONNECT'' 1 True) st_fresh
             (store_empty\<lparr>pendingConnectRequest := Some pending_connect\<rparr>))))
       (rs_dapp\<lparr>nextRequestId := 2\<rparr>, p_init\<lparr>awaiting := [(''req-1'', KConnect)]\<rparr>)
     = ([], (rs_dapp\<lparr>nextRequestId := 2\<rparr>, p_init\<lparr>awaiting := [(''req-1'', KConnect)]\<rparr>), [])
   \<and> round_trip 1000 background_port_posts ''req-1'' EthRequestAccounts
       (rs_dapp, p_init\<lparr>awaiting := [(''req-1'', KConnect)]\<rparr>)
     = ([(''req-1'', Rejects (PError (Some (- 32603)) ''Response timeout''))],
        (rs_dapp\<lparr>nextRequestId := 2\<rparr>, p_init), [PConsoleError ''Connection error''])
   \<and> respond ''req-1''
       (fst (relay_reply EthRequestAccounts 1 ''req-1'' (Some (RespConnected [alice] ''0x89''))
               (rs_dapp\<lparr>nextRequestId := 2\<rparr>)))
     = [CrossnetResult ''req-1'' (VConnected [alice] (Some ''0x89''))]
   \<and> page_receive_all [CrossnetResult ''req-1'' (VConnected [alice] (Some ''0x89''))]
       (p_init\<lparr>awaiting := [(''req-1'', KConnect)]\<rparr>)
     = ([(''req-1'', Resolves (PAccounts []))], p_init, [])"
proof -
  have a: "dispatch env1 (decision ''APPROVE_CONNECT'' 1 True) st_fresh
       (store_empty\<lparr>pendingConnectRequest := Some pending_connect\<rparr>)
     = Some ([Returned False, Returned False],
             st_fresh\<lparr>connectedSites :=
               [(dapp, site_dapp\<lparr>site_lastConnected := 1000, site_timestamp := 1000\<rparr>)]\<rparr>,
             store_empty,
             [SendResponse RespSuccess,
              TabsSendMessage 7
                ((tmsg ''CONNECT_RESPONSE'')
                   \<lparr>tm_requestId := Some (NumId 1), tm_approved := True,
                    tm_accounts := Some [alice], tm_chainId := Some ''0x89''\<rparr>)])"
    by code_simp
  have a': "relay_onMessage
       ((tmsg ''CONNECT_RESPONSE'')
          \<lparr>tm_requestId := Some (NumId 1), tm_approved := True,
           tm_accounts := Some [alice], tm_chainId := Some ''0x89''\<rparr>) rs_waiting
     = (False, [], rs_waiting)"
    by (simp add: connect_response_is_dropped tmsg_def)
  have b: "tab_receive_all
       (messages_for 7 (effects_of
          (dispatch env1 (decision ''APPROVE_CONNECT'' 1 True) st_fresh
             (store_empty\<lparr>pendingConnectRequest := Some pending_connect\<rparr>))))
       (rs_waiting, p_init\<lparr>awaiting := [(''req-1'', KConnect)]\<rparr>)
     = ([], (rs_waiting, p_init\<lparr>awaiting := [(''req-1'', KConnect)]\<rparr>), [])"
    by code_simp
  have c: "tab_receive_all
       (messages_for 7 (effects_of
          (dispatch env1 (decision ''APPROVE_CONNECT'' 1 True) st_fresh
             (store_empty\<lparr>pendingConnectRequest := Some pending_connect\<rparr>))))
       (rs_dapp\<lparr>nextRequestId := 2\<rparr>, p_init\<lparr>awaiting := [(''req-1'', KConnect)]\<rparr>)
     = ([], (rs_dapp\<lparr>nextRequestId := 2\<rparr>, p_init\<lparr>awaiting := [(''req-1'', KConnect)]\<rparr>), [])"
    by code_simp
  have d: "round_trip 1000 background_port_posts ''req-1'' EthRequestAccounts
       (rs_dapp, p_init\<lparr>awaiting := [(''req-1'', KConnect)]\<rparr>)
     = ([(''req-1'', Rejects (PError (Some (- 32603)) ''Response timeout''))],
        (rs_dapp\<lparr>nextRequestId := 2\<rparr>, p_init), [PConsoleError ''Connection error''])"
    by code_simp
  have e: "respond ''req-1''
       (fst (relay_reply EthRequestAccounts 1 ''req-1'' (Some (RespConnected [alice] ''0x89''))
               (rs_dapp\<lparr>nextRequestId := 2\<rparr>)))
     = [CrossnetResult ''req-1'' (VConnected [alice] (Some ''0x89''))]"
    by code_simp
  have f: "page_receive_all [CrossnetResult ''req-1'' (VConnected [alice] (Some ''0x89''))]
       (p_init\<lparr>awaiting := [(''req-1'', KConnect)]\<rparr>)
     = ([(''req-1'', Resolves (PAccounts []))], p_init, [])"
    by code_simp
  from a a' b c d e f show ?thesis by blast
qed

section \<open>Adding a chain, switching to it and reading the chain id\<close>

lemma switch_emits_only_on_change:
  "cr_success d \<Longrightarrow>
   emitted (snd (snd (resume (KSwitchChain (Some c)) (Inr d) p)))
     = (if p_chainId p = Some c then []
        else [(''chainChanged'', Some (EvChainId (Some c))),
              (''networkChanged'', Some (EvString (decimal_of_chain (Some c)))),
              (''chainIdChanged'', Some (EvChainId (Some c)))])"
  by (simp add: chain_events_def)

text \<open>
  No message arrives on the port, so \<open>sendMessage\<close> resolves with nothing, whatever
  the message.
\<close>

lemma port_is_never_answered: "sendMessage t background_port_posts msg = None"
  by (simp add: sendMessage_def background_port_posts_def)

text \<open>
  C6 (the code departs from the claim). \<open>dapp\<close> is connected and chain \<^verbatim>\<open>0x89\<close> is
  selected; the page calls \<^verbatim>\<open>wallet_switchEthereumChain\<close> for \<^verbatim>\<open>0x89\<close>. The content script
  posts \<^verbatim>\<open>SWITCH_CHAIN_REQUEST\<close> on its port, no answer arrives, and the call fails with
  code \<open>-32603\<close> and \<^verbatim>\<open>Response timeout\<close> instead of succeeding. The two scripts do not
  fit either: handed the message, the background script answers \<^verbatim>\<open>{chainId: '0x89'}\<close>,
  and handed that answer, the content script, which accepts only \<^verbatim>\<open>success\<close>,
  \<^verbatim>\<open>waiting\<close> or \<^verbatim>\<open>error\<close>, rejects with \<^verbatim>\<open>Invalid response from wallet\<close>. A following
  \<^verbatim>\<open>eth_chainId\<close> is not answered either and resolves with \<^verbatim>\<open>null\<close>, not with the chain
  id.
\<close>

theorem switch_to_selected_chain_fails:
  "selectedChainId st_connected = Some ''0x89''
   \<and> switchChain_call ''req-1'' ''0x89'' p_connected
     = (Suspended,
        p_connected\<lparr>chainSwitchInProgress := True,
                    awaiting := [(''req-1'', KSwitchChain (Some ''0x89''))]\<rparr>,
        [PostRequest ''req-1'' (WalletSwitchEthereumChain (Some ''0x89''))])
   \<and> round_trip 1000 background_port_posts ''req-1'' (WalletSwitchEthereumChain (Some ''0x89''))
       (rs_dapp, p_connected\<lparr>chainSwitchInProgress := True,
                             awaiting := [(''req-1'', KSwitchChain (Some ''0x89''))]\<rparr>)
     = ([(''req-1'', Rejects (PError (Some (- 32603)) ''Response timeout''))],
        (rs_dapp\<lparr>nextRequestId := 2\<rparr>, p_connected), [PConsoleError ''Switch chain error''])
   \<and> dispatch env1 (relay_message rs_dapp (WalletSwitchEthereumChain (Some ''0x89'')))
       st_connected store_empty
     = Some ([Returned True, Returned False], st_connected, store_empty,
             [SendResponse (RespChainId (Some ''0x89''))])
   \<and> relay_reply (WalletSwitchEthereumChain (Some ''0x89'')) 1 ''req-1''
       (Some (RespChainId (Some ''0x89''))) (rs_dapp\<lparr>nextRequestId := 2\<rparr>)
     = (RejectedWith (JsError ''Invalid response from wallet''), rs_dapp\<lparr>nextRequestId := 2\<rparr>)
   \<and> round_trip 1000 background_port_posts ''req-2'' EthChainId
       (rs_dapp, p_connected\<lparr>awaiting := [(''req-2'', KGetChainId)]\<rparr>)
     = ([(''req-2'', Resolves (PString None))],
        (rs_dapp\<lparr>nextRequestId := 2\<rparr>, p_connected), [PConsoleError ''Get chainId error''])"
proof -
  have a: "selectedChainId st_connected = Some ''0x89''"
    by (simp add: st_connected_def st_fresh_def)
  have b: "switchChain_call ''req-1'' ''0x89'' p_connected
     = (Suspended,
        p_connected\<lparr>chainSwitchInProgress := True,
                    awaiting := [(''req-1'', KSwitchChain (Some ''0x89''))]\<rparr>,
        [PostRequest ''req-1'' (WalletSwitchEthereumChain (Some ''0x89''))])"
    by (simp add: switchChain_call_def send_def p_connected_def p_init_def)
  have c: "round_trip 1000 background_port_posts ''req-1'' (WalletSwitchEthereumChain (Some ''0x89''))
       (rs_dapp, p_connected\<lparr>chainSwitchInProgress := True,
                             awaiting := [(''req-1'', KSwitchChain (Some ''0x89''))]\<rparr>)
     = ([(''req-1'', Rejects (PError (Some (- 32603)) ''Response timeout''))],
        (rs_dapp\<lparr>nextRequestId := 2\<rparr>, p_connected), [PConsoleError ''Switch chain error''])"
    by code_simp
  have d: "dispatch env1 (relay_message rs_dapp (WalletSwitchEthereumChain (Some ''0x89'')))
       st_connected store_empty
     = Some ([Returned True, Returned False], st_connected, store_empty,
             [SendResponse (RespChainId (Some ''0x89''))])"
    by code_simp
  have e: "relay_reply (WalletSwitchEthereumChain (Some ''0x89'')) 1 ''req-1''
       (Some (RespChainId (Some ''0x89''))) (rs_dapp\<lparr>nextRequestId := 2\<rparr>)
     = (RejectedWith (JsError ''Invalid response from wallet''), rs_dapp\<lparr>nextRequestId := 2\<rparr>)"
    by code_simp
  have f: "round_trip 1000 background_port_posts ''req-2'' EthChainId
       (rs_dapp, p_connected\<lparr>awaiting := [(''req-2'', KGetChainId)]\<rparr>)
     = ([(''req-2'', Resolves (PString None))],
        (rs_dapp\<lparr>nextRequestId := 2\<rparr>, p_connected), [PConsoleError ''Get chainId error''])"
    by code_simp
  from a b c d e f show ?thesis by blast
qed

section \<open>The guard against concurrent chain operations\<close>

lemma guarded_call_fails_fast:
  "chainSwitchInProgress p \<Longrightarrow>
   switchChain_call pid chainId p =
     (Rejects (PError (Some (- 32002)) ''Chain switch already in progress''),
      p\<lparr>chainSwitchInProgress := False\<rparr>, [PConsoleError ''Switch chain error''])"
  "chainSwitchInProgress p \<Longrightarrow>
   addChain_call pid chainData p =
     (Rejects (PError (Some (- 32002)) ''Chain operation already in progress''),
      p\<lparr>chainSwitchInProgress := False\<rparr>, [PConsoleError ''Add chain error''])"
  by (simp_all add: switchChain_call_def addChain_call_def)

text \<open>
  C7 (the code departs from the claim). Three calls of \<^verbatim>\<open>wallet_switchEthereumChain\<close>
  are made before any response arrives. The first posts its request. The second fails
  at once with code \<open>-32002\<close> and posts nothing, but its \<^verbatim>\<open>catch\<close> block sets
  \<^verbatim>\<open>_chainSwitchInProgress\<close> back to \<^verbatim>\<open>false\<close> while the first call is still waiting. The
  third call therefore passes the guard and posts a second request: two chain switches
  are in flight on the same provider.
\<close>

theorem rejected_call_clears_switch_guard:
  "switchChain_call ''req-1'' ''0x1'' p_connected
     = (Suspended,
        p_connected\<lparr>chainSwitchInProgress := True,
                    awaiting := [(''req-1'', KSwitchChain (Some ''0x1''))]\<rparr>,
        [PostRequest ''req-1'' (WalletSwitchEthereumChain (Some ''0x1''))])
   \<and> switchChain_call ''req-2'' ''0x1''
       (p_connected\<lparr>chainSwitchInProgress := True,
                    awaiting := [(''req-1'', KSwitchChain (Some ''0x1''))]\<rparr>)
     = (Rejects (PError (Some (- 32002)) ''Chain switch already in progress''),
        p_connected\<lparr>chainSwitchInProgress := False,
                    awaiting := [(''req-1'', KSwitchChain (Some ''0x1''))]\<rparr>,
        [PConsoleError ''Switch chain error''])
   \<and> switchChain_call ''req-3'' ''0x5''
       (p_connected\<lparr>chainSwitchInProgress := False,
                    awaiting := [(''req-1'', KSwitchChain (Some ''0x1''))]\<rparr>)
     = (Suspended,
        p_connected\<lparr>chainSwitchInProgress := True,
                    awaiting := [(''req-1'', KSwitchChain (Some ''0x1'')),
                                 (''req-3'', KSwitchChain (Some ''0x5''))]\<rparr>,
        [PostRequest ''req-3'' (WalletSwitchEthereumChain (Some ''0x5''))])"
  by (simp add: switchChain_call_def send_def p_connected_def p_init_def)

end
